theory Spec2Isabelle
  imports Main
begin

text \<open>
  A shallow embedding of the document-to-Markdown conversion engine: the cleanup
  normalizer, the tabular (CSV) converter, the hierarchical (JSON) converter, the
  plain-text structural inference, the word-processing (DOCX) extractor and the format
  dispatcher with its batch loop.  Each source function is a function of the same name
  here; a regular expression is given by a matcher that says what it matches at a
  position.  Reading files, unpacking packages, \<^verbatim>\<open>JSON.parse\<close>, the printing of
  floating-point numbers and the hypertext transform are inputs of the model.
\<close>

section \<open>Strings\<close>

text \<open>
  The converter works on JavaScript strings, which are sequences of UTF-16 code units.
  They are modelled as \<^typ>\<open>string\<close>; a \<^typ>\<open>char\<close> is read as the code unit of the same
  value, so the model covers the strings whose code units lie in U+0000..U+00FF.  The
  character classes below are the JavaScript ones cut down to that range.
\<close>

definition nl :: char where
  "nl = CHR 0x0A"

definition dq :: char where
  "dq = CHR 0x22"

text \<open>The class \<^verbatim>\<open>\s\<close>, which is also what \<^verbatim>\<open>String.prototype.trim\<close> strips:
  TAB, LF, VT, FF, CR, SPACE and NO-BREAK SPACE.\<close>

definition isSpace :: "char \<Rightarrow> bool" where
  "isSpace c \<longleftrightarrow>
     c \<in> set [CHR 0x09, CHR 0x0A, CHR 0x0B, CHR 0x0C, CHR 0x0D, CHR 0x20, CHR 0xA0]"

definition isDigit :: "char \<Rightarrow> bool" where
  "isDigit c \<longleftrightarrow> c \<in> set ''0123456789''"

definition isUpperAZ :: "char \<Rightarrow> bool" where
  "isUpperAZ c \<longleftrightarrow> c \<in> set ''ABCDEFGHIJKLMNOPQRSTUVWXYZ''"

definition isLowerAZ :: "char \<Rightarrow> bool" where
  "isLowerAZ c \<longleftrightarrow> c \<in> set ''abcdefghijklmnopqrstuvwxyz''"

definition isLetter :: "char \<Rightarrow> bool" where
  "isLetter c \<longleftrightarrow> isUpperAZ c \<or> isLowerAZ c"

definition trimStart :: "string \<Rightarrow> string" where
  "trimStart s = dropWhile isSpace s"

definition trimEnd :: "string \<Rightarrow> string" where
  "trimEnd s = rev (dropWhile isSpace (rev s))"

definition trim :: "string \<Rightarrow> string" where
  "trim s = trimEnd (trimStart s)"

text \<open>\<^verbatim>\<open>s.split(sep)\<close> for a one-character separator: never the empty list.\<close>

fun split :: "char \<Rightarrow> string \<Rightarrow> string list" where
  "split sep [] = [[]]"
| "split sep (c # cs) =
     (if c = sep then [] # split sep cs
      else (case split sep cs of
              [] \<Rightarrow> [[c]]
            | l # ls \<Rightarrow> (c # l) # ls))"

fun join :: "string \<Rightarrow> string list \<Rightarrow> string" where
  "join sep [] = []"
| "join sep [x] = x"
| "join sep (x # y # ys) = x @ sep @ join sep (y # ys)"

definition startsWith :: "string \<Rightarrow> string \<Rightarrow> bool" where
  "startsWith s p \<longleftrightarrow> take (length p) s = p"

definition endsWith :: "string \<Rightarrow> string \<Rightarrow> bool" where
  "endsWith s p \<longleftrightarrow> startsWith (rev s) (rev p)"

fun includesStr :: "string \<Rightarrow> string \<Rightarrow> bool" where
  "includesStr [] p \<longleftrightarrow> p = []"
| "includesStr (c # cs) p \<longleftrightarrow> startsWith (c # cs) p \<or> includesStr cs p"

text \<open>The decimal rendering of a non-negative integer, as a template literal prints a
  length or an index.\<close>

definition digitChar :: "nat \<Rightarrow> char" where
  "digitChar d = ''0123456789'' ! d"

fun showNat :: "nat \<Rightarrow> string" where
  "showNat n = (if n < 10 then [digitChar n] else showNat (n div 10) @ [digitChar (n mod 10)])"

declare showNat.simps [simp del]

text \<open>\<^verbatim>\<open>s.replace(/\|/g, '\\|')\<close>: every pipe gets a backslash in front.\<close>

fun escapePipes :: "string \<Rightarrow> string" where
  "escapePipes [] = []"
| "escapePipes (c # cs) =
     (if c = CHR ''|'' then CHR 0x5C # CHR ''|'' # escapePipes cs else c # escapePipes cs)"


section \<open>Tabular converter\<close>

subsection \<open>parseCSVLine\<close>

text \<open>
  The loop of \<^verbatim>\<open>parseCSVLine\<close> over the characters of the line, with its three
  variables \<^verbatim>\<open>result\<close>, \<^verbatim>\<open>current\<close> and \<^verbatim>\<open>inQuotes\<close>.  The argument list is the
  line from index \<^verbatim>\<open>i\<close> on; the escaped quote consumes two characters (\<^verbatim>\<open>i++\<close> inside
  the body and again in the loop header).
\<close>

definition nextIsQuote :: "string \<Rightarrow> bool" where
  "nextIsQuote cs \<longleftrightarrow> (case cs of [] \<Rightarrow> False | c' # _ \<Rightarrow> c' = dq)"

function csvLoop :: "string list \<Rightarrow> string \<Rightarrow> bool \<Rightarrow> string \<Rightarrow> string list" where
  "csvLoop result current inQuotes [] = result @ [trim current]"
| "csvLoop result current inQuotes (c # cs) =
     (if c = dq then
        (if inQuotes \<and> nextIsQuote cs then csvLoop result (current @ [dq]) inQuotes (tl cs)
         else csvLoop result current (\<not> inQuotes) cs)
      else if c = CHR '','' \<and> \<not> inQuotes then csvLoop (result @ [trim current]) [] inQuotes cs
      else csvLoop result (current @ [c]) inQuotes cs)"
  by pat_completeness auto
termination
  by (relation "measure (\<lambda>(result, current, inQuotes, s). length s)") auto

definition parseCSVLine :: "string \<Rightarrow> string list" where
  "parseCSVLine line = csvLoop [] [] False line"

subsection \<open>detectNumericColumns\<close>

text \<open>
  \<^verbatim>\<open>!isNaN(parseFloat(s))\<close>: \<^verbatim>\<open>parseFloat\<close> skips leading white space and reads the longest
  prefix that is a decimal literal, so the result is a number exactly when what follows
  an optional sign starts with a digit, with a dot and a digit, or with \<^verbatim>\<open>Infinity\<close>.
\<close>

definition startsNumber :: "string \<Rightarrow> bool" where
  "startsNumber s \<longleftrightarrow>
     (case s of
        [] \<Rightarrow> False
      | c # cs \<Rightarrow>
          isDigit c \<or> (c = CHR ''.'' \<and> (case cs of [] \<Rightarrow> False | d # _ \<Rightarrow> isDigit d))
          \<or> startsWith s ''Infinity'')"

definition parsesAsNumber :: "string \<Rightarrow> bool" where
  "parsesAsNumber s \<longleftrightarrow>
     (case trimStart s of
        [] \<Rightarrow> False
      | c # cs \<Rightarrow> if c = CHR ''+'' \<or> c = CHR ''-'' then startsNumber cs else startsNumber (c # cs))"

text \<open>
  The inner loop over the sampled rows, carrying \<^verbatim>\<open>(numericCount, totalCount)\<close>.  A row
  shorter than the column index has \<^verbatim>\<open>undefined\<close> there, which the test \<^verbatim>\<open>cell &&
  cell.trim()\<close> skips like an empty or blank cell.
\<close>

fun countCells :: "string list list \<Rightarrow> nat \<Rightarrow> nat \<times> nat \<Rightarrow> nat \<times> nat" where
  "countCells [] colIndex (numericCount, totalCount) = (numericCount, totalCount)"
| "countCells (row # rows) colIndex (numericCount, totalCount) =
     (if colIndex < length row \<and> row ! colIndex \<noteq> [] \<and> trim (row ! colIndex) \<noteq> [] then
        countCells rows colIndex
          (if parsesAsNumber (trim (row ! colIndex)) then numericCount + 1 else numericCount,
           totalCount + 1)
      else countCells rows colIndex (numericCount, totalCount))"

text \<open>
  The rows with index \<^verbatim>\<open>1 \<le> rowIndex < Math.min(rows.length, 11)\<close>.
\<close>

definition sampleRows :: "string list list \<Rightarrow> string list list" where
  "sampleRows rows = take (min (length rows) 11 - 1) (drop 1 rows)"

text \<open>
  The test \<^verbatim>\<open>totalCount > 0 && (numericCount / totalCount) >= 0.7\<close> divides two doubles.
  Both counts are integers between 0 and 10, the quotient is the correctly rounded value
  of the exact fraction and \<^verbatim>\<open>0.7\<close> is the correctly rounded value of 7/10; a fraction
  with denominator at most 10 other than 7/10 differs from 7/10 by at least 1/100, far
  more than the rounding error, and rounding is monotone.  So the comparison holds
  exactly when \<open>7 * totalCount \<le> 10 * numericCount\<close>.
\<close>

definition isNumericColumn :: "string list list \<Rightarrow> nat \<Rightarrow> bool" where
  "isNumericColumn rows colIndex \<longleftrightarrow>
     (case countCells (sampleRows rows) colIndex (0, 0) of
        (numericCount, totalCount) \<Rightarrow> 0 < totalCount \<and> 7 * totalCount \<le> 10 * numericCount)"

definition detectNumericColumns :: "string list list \<Rightarrow> nat list" where
  "detectNumericColumns rows =
     (if length rows < 2 then []
      else filter (isNumericColumn rows) [0 ..< length (rows ! 0)])"

subsection \<open>convertCsvToMarkdown\<close>

text \<open>
  The summary block formats floating-point numbers (\<^verbatim>\<open>avg.toFixed(2)\<close>, \<^verbatim>\<open>Math.min\<close>,
  \<^verbatim>\<open>Math.max\<close> of the parsed cells).  Their renderings are parameters: each takes the
  cells of the column for which \<^verbatim>\<open>parseFloat\<close> gives a number, in row order.
\<close>

record numfmt =
  average :: "string list \<Rightarrow> string"
  minimum :: "string list \<Rightarrow> string"
  maximum :: "string list \<Rightarrow> string"

definition cleanHeaderOf :: "string list \<Rightarrow> string list" where
  "cleanHeaderOf header = map (\<lambda>cell. if trim cell = [] then ''Column'' else trim cell) header"

definition tableLine :: "string list \<Rightarrow> string" where
  "tableLine cells = ''| '' @ join '' | '' cells @ '' |'' @ [nl]"

definition dataRowLine :: "nat \<Rightarrow> string list \<Rightarrow> string" where
  "dataRowLine width row =
     (if 0 < length row then
        (let paddedRow = row @ replicate (width - length row) [];
             cleanRow = map (\<lambda>cell. escapePipes (trim cell)) (take width paddedRow)
         in tableLine cleanRow)
      else [])"

definition columnSummary :: "numfmt \<Rightarrow> string list \<Rightarrow> string list list \<Rightarrow> nat \<Rightarrow> string" where
  "columnSummary fmt cleanHeader rows colIndex =
     (let colName = (if colIndex < length cleanHeader \<and> cleanHeader ! colIndex \<noteq> []
                     then cleanHeader ! colIndex
                     else ''Column '' @ showNat (colIndex + 1));
          values = filter parsesAsNumber
                     (concat (map (\<lambda>row. if colIndex < length row then [row ! colIndex] else [])
                                  (drop 1 rows)))
      in if 0 < length values then
           ''**'' @ colName @ '':**'' @ [nl]
           @ ''- Count: '' @ showNat (length values) @ [nl]
           @ ''- Average: '' @ average fmt values @ [nl]
           @ ''- Min: '' @ minimum fmt values @ [nl]
           @ ''- Max: '' @ maximum fmt values @ [nl, nl]
         else [])"

definition csvBody :: "numfmt \<Rightarrow> string list list \<Rightarrow> string" where
  "csvBody fmt rows =
     (if 0 < length rows then
        ''**Rows:** '' @ showNat (length rows) @ [nl]
        @ ''**Columns:** '' @ showNat (length (rows ! 0)) @ [nl, nl]
        @ (let header = rows ! 0 in
           if 0 < length header then
             (let cleanHeader = cleanHeaderOf header;
                  numericColumns = detectNumericColumns rows
              in tableLine cleanHeader
                 @ tableLine (map (\<lambda>_. ''---'') cleanHeader)
                 @ concat (map (dataRowLine (length cleanHeader)) (drop 1 rows))
                 @ (if 0 < length numericColumns then
                      [nl] @ ''## Data Summary'' @ [nl, nl]
                      @ concat (map (columnSummary fmt cleanHeader rows) numericColumns)
                    else []))
           else [])
      else [])"

definition convertCsvToMarkdown :: "numfmt \<Rightarrow> string \<Rightarrow> string" where
  "convertCsvToMarkdown fmt csvContent =
     (let lines = split nl (trim csvContent) in
      if length lines = 0 then ''# Empty CSV'' @ [nl]
      else ''# CSV Data'' @ [nl, nl] @ csvBody fmt (map parseCSVLine lines))"


section \<open>Regular-expression replacement\<close>

text \<open>
  \<^verbatim>\<open>s.replace(re, r)\<close> with a global regular expression scans the string from left to
  right; at each position it tries to match there, and after a match it goes on behind
  the matched text.  A regular expression is given by its matcher: from the character
  before the position (\<open>None\<close> at the start of the string) and the rest of the string
  it returns the replacement and the length of the match.  No expression used by the
  converter matches the empty string, so every match has length at least 1;
  \<open>skip\<close> counts the characters of the last match that are still to be passed over.
\<close>

type_synonym matcher = "char option \<Rightarrow> string \<Rightarrow> (string \<times> nat) option"

fun gsub :: "matcher \<Rightarrow> nat \<Rightarrow> char option \<Rightarrow> string \<Rightarrow> string" where
  "gsub m skip prev [] = []"
| "gsub m skip prev (c # cs) =
     (if 0 < skip then gsub m (skip - 1) (Some c) cs
      else (case m prev (c # cs) of
              Some (replacement, len) \<Rightarrow> replacement @ gsub m (len - 1) (Some c) cs
            | None \<Rightarrow> c # gsub m 0 (Some c) cs))"

definition replaceAll :: "matcher \<Rightarrow> string \<Rightarrow> string" where
  "replaceAll m s = gsub m 0 None s"

text \<open>\<^verbatim>\<open>re.test(s)\<close> for an expression without anchor: some position matches.\<close>

fun searchFrom :: "(char option \<Rightarrow> string \<Rightarrow> bool) \<Rightarrow> char option \<Rightarrow> string \<Rightarrow> bool" where
  "searchFrom m prev [] \<longleftrightarrow> m prev []"
| "searchFrom m prev (c # cs) \<longleftrightarrow> m prev (c # cs) \<or> searchFrom m (Some c) cs"

definition hashes :: "string \<Rightarrow> nat" where
  "hashes s = length (takeWhile (\<lambda>c. c = CHR ''#'') s)"


section \<open>Cleanup normalizer\<close>

text \<open>\<^verbatim>\<open>/\n{4,}/g\<close> replaced by three newlines: the match is the whole run of newlines
  starting at the position, when it has at least four.\<close>

definition manyNewlines :: matcher where
  "manyNewlines prev s =
     (let n = length (takeWhile (\<lambda>c. c = nl) s)
      in if 4 \<le> n then Some ([nl, nl, nl], n) else None)"

text \<open>
  \<^verbatim>\<open>/\n(#{1,6}\s)/g\<close> replaced by \<^verbatim>\<open>'\n\n$1'\<close>.  The white-space character must follow
  the hashes directly, so \<^verbatim>\<open>#{1,6}\<close> can only stand for all the hashes after the newline,
  and there must be between one and six of them.
\<close>

definition beforeHeader :: matcher where
  "beforeHeader prev s =
     (case s of
        [] \<Rightarrow> None
      | c # t \<Rightarrow>
          (let k = hashes t in
           if c = nl \<and> 1 \<le> k \<and> k \<le> 6 \<and> k < length t \<and> isSpace (t ! k)
           then Some ([nl, nl] @ take (k + 1) t, k + 2)
           else None))"

text \<open>
  \<^verbatim>\<open>/(#{1,6}\s[^\n]+)\n(?!\n)/g\<close> replaced by \<^verbatim>\<open>'$1\n\n'\<close>.  After the hashes and one
  white-space character, \<^verbatim>\<open>[^\n]+\<close> must reach up to a newline, so it is the whole
  non-empty run of characters other than newline; the newline is part of the match,
  the character after it is only looked at.
\<close>

definition afterHeader :: matcher where
  "afterHeader prev s =
     (let k = hashes s in
      if 1 \<le> k \<and> k \<le> 6 \<and> k < length s \<and> isSpace (s ! k) then
        (let body = takeWhile (\<lambda>c. c \<noteq> nl) (drop (k + 1) s);
             n = k + 1 + length body;
             rest = drop n s
         in if body \<noteq> [] \<and> take 1 rest = [nl] \<and> take 1 (drop 1 rest) \<noteq> [nl]
            then Some (take n s @ [nl, nl], n + 1)
            else None)
      else None)"

text \<open>
  \<^verbatim>\<open>/[ \t]+$/gm\<close> replaced by the empty string.  With the \<^verbatim>\<open>m\<close> flag, \<^verbatim>\<open>$\<close> matches at the
  end of the string and before a line terminator (LF or CR in this range).
\<close>

definition isLineTerminator :: "char \<Rightarrow> bool" where
  "isLineTerminator c \<longleftrightarrow> c = CHR 0x0A \<or> c = CHR 0x0D"

definition trailingBlanks :: matcher where
  "trailingBlanks prev s =
     (let n = length (takeWhile (\<lambda>c. c = CHR '' '' \<or> c = CHR 0x09) s)
      in if 1 \<le> n \<and> (n = length s \<or> isLineTerminator (s ! n)) then Some ([], n) else None)"

text \<open>\<^verbatim>\<open>/([.!?])([A-Z])/g\<close> and \<^verbatim>\<open>/([,;:])([a-zA-Z])/g\<close>, each replaced by
  \<^verbatim>\<open>'$1 $2'\<close>.\<close>

definition pairMatcher :: "(char \<Rightarrow> bool) \<Rightarrow> (char \<Rightarrow> bool) \<Rightarrow> matcher" where
  "pairMatcher first second prev s =
     (case s of
        a # b # _ \<Rightarrow> if first a \<and> second b then Some ([a, CHR '' '', b], 2) else None
      | _ \<Rightarrow> None)"

definition sentenceEnd :: matcher where
  "sentenceEnd = pairMatcher (\<lambda>c. c \<in> set ''.!?'') isUpperAZ"

definition clauseEnd :: matcher where
  "clauseEnd = pairMatcher (\<lambda>c. c \<in> set '',;:'') isLetter"

definition cleanupMarkdownContent :: "string \<Rightarrow> string" where
  "cleanupMarkdownContent content =
     (let cleaned = content;
          cleaned = replaceAll manyNewlines cleaned;
          cleaned = replaceAll beforeHeader cleaned;
          cleaned = replaceAll afterHeader cleaned;
          cleaned = replaceAll trailingBlanks cleaned;
          cleaned = replaceAll sentenceEnd cleaned;
          cleaned = replaceAll clauseEnd cleaned;
          cleaned = trim cleaned
      in if cleaned \<noteq> [] \<and> \<not> endsWith cleaned [nl] then cleaned @ [nl] else cleaned)"


section \<open>Plain-text structural inference\<close>

subsection \<open>Character and prefix tests\<close>

text \<open>
  \<^verbatim>\<open>line === line.toUpperCase()\<close> holds exactly when no character of the line is changed
  by \<^verbatim>\<open>toUpperCase\<close>.  In the range of the model the characters that are changed are the
  letters a to z, the micro sign, the sharp s and the lower-case letters U+00E0 to
  U+00FF other than the division sign.
\<close>

definition hasUpperCaseMapping :: "char \<Rightarrow> bool" where
  "hasUpperCaseMapping c \<longleftrightarrow>
     isLowerAZ c \<or>
     (let n = (of_char c :: nat) in n = 181 \<or> (223 \<le> n \<and> n \<le> 246) \<or> (248 \<le> n \<and> n \<le> 255))"

definition isUpperCased :: "string \<Rightarrow> bool" where
  "isUpperCased line \<longleftrightarrow> list_all (\<lambda>c. \<not> hasUpperCaseMapping c) line"

text \<open>The letters a to z and A to Z compared without regard to case, as the \<^verbatim>\<open>i\<close> flag
  does for a pattern of such letters.\<close>

definition asciiLower :: "char \<Rightarrow> char" where
  "asciiLower c =
     (case map_of (zip ''ABCDEFGHIJKLMNOPQRSTUVWXYZ'' ''abcdefghijklmnopqrstuvwxyz'') c of
        Some l \<Rightarrow> l
      | None \<Rightarrow> c)"

text \<open>\<^verbatim>\<open>/^(kw1|kw2|...)\s+/i\<close>: one of the keywords (given in lower case), then a
  white-space character.\<close>

definition keywordThenSpace :: "string list \<Rightarrow> string \<Rightarrow> bool" where
  "keywordThenSpace kws line \<longleftrightarrow>
     list_ex (\<lambda>kw. map asciiLower (take (length kw) line) = kw
                    \<and> length kw < length line \<and> isSpace (line ! length kw)) kws"

text \<open>\<^verbatim>\<open>/^\d+\.\s+/\<close>, and what is left of the line behind the match.\<close>

definition afterNumberDot :: "string \<Rightarrow> string option" where
  "afterNumberDot line =
     (let digits = takeWhile isDigit line; rest = dropWhile isDigit line in
      case rest of
        c # d # _ \<Rightarrow> if digits \<noteq> [] \<and> c = CHR ''.'' \<and> isSpace d
                     then Some (dropWhile isSpace (tl rest)) else None
      | _ \<Rightarrow> None)"

subsection \<open>isHeader and getHeaderLevel\<close>

definition isHeader :: "string \<Rightarrow> string \<Rightarrow> bool" where
  "isHeader line nextLine \<longleftrightarrow>
     (3 < length line \<and> isUpperCased line
        \<and> list_all (\<lambda>c. isUpperAZ c \<or> isSpace c \<or> isDigit c \<or> c \<in> set ''-.:'') line)
     \<or> (nextLine \<noteq> [] \<and> (list_all (\<lambda>c. c = CHR ''='') nextLine
                          \<or> list_all (\<lambda>c. c = CHR ''-'') nextLine))
     \<or> ((case afterNumberDot line of
            Some (c # _) \<Rightarrow> isUpperAZ c
          | _ \<Rightarrow> False) \<and> isUpperCased line)
     \<or> keywordThenSpace [''chapter'', ''section'', ''part'', ''article'', ''introduction'',
          ''conclusion'', ''summary'', ''overview'', ''background''] line"

definition getHeaderLevel :: "string \<Rightarrow> nat \<Rightarrow> string list \<Rightarrow> nat" where
  "getHeaderLevel line index lines =
     (if index = 0 \<or> list_all (\<lambda>l. trim l = []) (take index lines) then 1
      else if length line < 30 \<and> isUpperCased line then 2
      else if keywordThenSpace [''chapter'', ''part''] line then 1
      else if keywordThenSpace [''section''] line then 2
      else 3)"

subsection \<open>Lists, code lines and quotes\<close>

text \<open>The bullet U+2022 of the source's patterns lies outside the range of the model
  and is left out of the character classes.\<close>

definition isList :: "string \<Rightarrow> bool" where
  "isList line \<longleftrightarrow>
     (case line of c # d # _ \<Rightarrow> c \<in> set ''-*'' \<and> isSpace d | _ \<Rightarrow> False)
     \<or> afterNumberDot line \<noteq> None
     \<or> (case line of c # d # e # _ \<Rightarrow> isLetter c \<and> d = CHR ''.'' \<and> isSpace e | _ \<Rightarrow> False)
     \<or> (let roman = takeWhile (\<lambda>c. asciiLower c \<in> set ''ivxlcdm'') line in
         roman \<noteq> [] \<and>
         (case drop (length roman) line of
            d # e # _ \<Rightarrow> d = CHR ''.'' \<and> isSpace e
          | _ \<Rightarrow> False))"

definition convertToMarkdownList :: "string \<Rightarrow> string" where
  "convertToMarkdownList line =
     (if (case line of c # d # _ \<Rightarrow> c \<in> set ''-*'' \<and> isSpace d | _ \<Rightarrow> False) then line
      else if afterNumberDot line \<noteq> None then line
      else ''- '' @
        (case line of
           c # d # rest \<Rightarrow>
             if (isLetter c \<or> c \<in> set ''-*'') \<and> d = CHR ''.'' then dropWhile isSpace rest
             else line
         | _ \<Rightarrow> line))"

definition isWordChar :: "char \<Rightarrow> bool" where
  "isWordChar c \<longleftrightarrow> isLetter c \<or> isDigit c \<or> c = CHR ''_''"

text \<open>\<^verbatim>\<open>\b(kw1|kw2|...)\b\<close> at a position: a keyword with no word character before it
  and none behind it.\<close>

definition wholeWord :: "string list \<Rightarrow> char option \<Rightarrow> string \<Rightarrow> bool" where
  "wholeWord kws prev s \<longleftrightarrow>
     (case prev of None \<Rightarrow> True | Some p \<Rightarrow> \<not> isWordChar p)
     \<and> list_ex (\<lambda>kw. startsWith s kw
                     \<and> (case drop (length kw) s of [] \<Rightarrow> True | n # _ \<Rightarrow> \<not> isWordChar n)) kws"

definition isCodeLine :: "string \<Rightarrow> bool" where
  "isCodeLine line \<longleftrightarrow>
     startsWith line ''    ''
     \<or> (list_ex (\<lambda>c. c \<in> set ''{}();'') line
         \<and> \<not> (case trim line of c # _ \<Rightarrow> isUpperAZ c | [] \<Rightarrow> False))
     \<or> searchFrom (wholeWord [''function'', ''var'', ''let'', ''const'', ''if'', ''else'',
          ''for'', ''while'', ''class'', ''def'', ''import'', ''export'']) None line"

definition isQuoteChar :: "char \<Rightarrow> bool" where
  "isQuoteChar c \<longleftrightarrow> c = dq \<or> c = CHR 0x27"

text \<open>In \<^verbatim>\<open>/^["'].*["']$/\<close> the dot stands for any character but a line terminator.\<close>

definition isQuote :: "string \<Rightarrow> bool" where
  "isQuote line \<longleftrightarrow>
     (case line of c # d # _ \<Rightarrow> c = CHR ''>'' \<and> isSpace d | _ \<Rightarrow> False)
     \<or> (2 \<le> length line \<and> isQuoteChar (hd line) \<and> isQuoteChar (last line)
         \<and> list_all (\<lambda>c. \<not> isLineTerminator c) (butlast (tl line)))
     \<or> startsWith line ''Quote:''
     \<or> (case line of c # _ \<Rightarrow> isQuoteChar c | [] \<Rightarrow> False)"

text \<open>\<^verbatim>\<open>line.replace(/^>\s*/, '')\<close>.\<close>

definition stripQuoteMarker :: "string \<Rightarrow> string" where
  "stripQuoteMarker line =
     (case line of
        [] \<Rightarrow> []
      | c # rest \<Rightarrow> if c = CHR ''>'' then dropWhile isSpace rest else line)"

subsection \<open>Links\<close>

text \<open>
  \<^verbatim>\<open>/(^|[\s])((https?:\/\/[^\s]+))([\s]|$)/g\<close> replaced by \<^verbatim>\<open>'$1[$3]($3)$4'\<close>.
  \<open>urlAt\<close> is the part behind the first group: the address is the scheme and the
  whole non-empty run of characters other than white space, and the last group is the
  white-space character behind it, or empty at the end of the string.
\<close>

definition urlAt :: "string \<Rightarrow> (string \<times> string) option" where
  "urlAt s =
     (let n = (if startsWith s ''https://'' then 8 else if startsWith s ''http://'' then 7 else 0);
          body = takeWhile (\<lambda>c. \<not> isSpace c) (drop n s)
      in if 0 < n \<and> body \<noteq> []
         then Some (take (n + length body) s, take 1 (drop (n + length body) s))
         else None)"

text \<open>A matcher for \<^verbatim>\<open>(^|[\s])\<close> followed by what \<open>at\<close> recognises, with the
  replacement built by \<open>link\<close> from the recognised text.  The first alternative, the
  start of the string, is tried first.\<close>

definition afterStartOrSpace ::
  "(string \<Rightarrow> (string \<times> string) option) \<Rightarrow> (string \<Rightarrow> string) \<Rightarrow> matcher" where
  "afterStartOrSpace at link prev s =
     (case (if prev = None then at s else None) of
        Some (found, trail) \<Rightarrow> Some (link found @ trail, length found + length trail)
      | None \<Rightarrow>
          (case s of
             [] \<Rightarrow> None
           | w # t \<Rightarrow>
               if isSpace w then
                 (case at t of
                    Some (found, trail) \<Rightarrow>
                      Some (w # link found @ trail, 1 + length found + length trail)
                  | None \<Rightarrow> None)
               else None))"

definition urlLink :: matcher where
  "urlLink = afterStartOrSpace urlAt (\<lambda>u. ''['' @ u @ '']('' @ u @ '')'')"

text \<open>
  \<^verbatim>\<open>/(^|[\s])([a-zA-Z0-9._%+-]+@[a-zA-Z0-9.-]+\.[a-zA-Z]{2,})([\s]|$)/g\<close> replaced by
  \<^verbatim>\<open>'$1[$2](mailto:$2)$3'\<close>.  The local part is the whole run of its characters and
  is followed by the at sign.  Behind it the match must end at white space or at the end
  of the string, so it takes the whole run of domain characters; the letters of
  \<^verbatim>\<open>[a-zA-Z]{2,}\<close> are then what follows the last dot of that run, and something must
  stand before that dot.
\<close>

definition isLocalChar :: "char \<Rightarrow> bool" where
  "isLocalChar c \<longleftrightarrow> isLetter c \<or> isDigit c \<or> c \<in> set ''._%+-''"

definition isDomainChar :: "char \<Rightarrow> bool" where
  "isDomainChar c \<longleftrightarrow> isLetter c \<or> isDigit c \<or> c \<in> set ''.-''"

definition emailAt :: "string \<Rightarrow> (string \<times> string) option" where
  "emailAt s =
     (let local = takeWhile isLocalChar s;
          rest = drop (length local) s;
          domain = takeWhile isDomainChar (drop 1 rest);
          tld = rev (takeWhile (\<lambda>c. c \<noteq> CHR ''.'') (rev domain));
          n = length local + 1 + length domain;
          trail = take 1 (drop n s)
      in if local \<noteq> [] \<and> take 1 rest = ''@''
            \<and> length tld + 1 < length domain \<and> 2 \<le> length tld \<and> list_all isLetter tld
            \<and> (trail = [] \<or> list_all isSpace trail)
         then Some (take n s, trail)
         else None)"

definition emailLink :: matcher where
  "emailLink = afterStartOrSpace emailAt (\<lambda>e. ''['' @ e @ ''](mailto:'' @ e @ '')'')"

subsection \<open>convertPlainTextToMarkdown\<close>

definition crlf :: matcher where
  "crlf prev s = (if startsWith s [CHR 0x0D, CHR 0x0A] then Some ([nl], 2) else None)"

definition cr :: matcher where
  "cr prev s = (if startsWith s [CHR 0x0D] then Some ([nl], 1) else None)"

text \<open>The body of the loop for the line at index \<open>i\<close>: the line pushed onto
  \<^verbatim>\<open>processedLines\<close>.\<close>

definition processLine :: "string list \<Rightarrow> nat \<Rightarrow> string \<Rightarrow> string \<Rightarrow> string" where
  "processLine lines i originalLine nextLine =
     (let line = trim originalLine in
      if line = [] then []
      else if isHeader line nextLine then
        replicate (getHeaderLevel line i lines) (CHR ''#'') @ '' '' @ line
      else if isList line then convertToMarkdownList line
      else if isCodeLine originalLine then ''    '' @ line
      else if isQuote line then ''> '' @ stripQuoteMarker line
      else line)"

text \<open>The loop, from index \<open>i\<close> on; the last argument is \<^verbatim>\<open>lines.slice(i)\<close>.\<close>

fun processLines :: "string list \<Rightarrow> nat \<Rightarrow> string list \<Rightarrow> string list" where
  "processLines lines i [] = []"
| "processLines lines i (originalLine # rest) =
     processLine lines i originalLine (case rest of [] \<Rightarrow> [] | n # _ \<Rightarrow> trim n)
     # processLines lines (i + 1) rest"

definition convertPlainTextToMarkdown :: "string \<Rightarrow> string" where
  "convertPlainTextToMarkdown textContent =
     (let markdown = replaceAll cr (replaceAll crlf textContent);
          lines = split nl markdown;
          processedLines = processLines lines 0 lines;
          markdown = join [nl] processedLines;
          markdown = replaceAll manyNewlines markdown;
          markdown = replaceAll urlLink markdown;
          markdown = replaceAll emailLink markdown
      in trim markdown)"


section \<open>Hierarchical converter\<close>

subsection \<open>JSON values\<close>

text \<open>
  The value that \<^verbatim>\<open>JSON.parse\<close> returns.  The entries of an object are listed in the
  order of \<^verbatim>\<open>Object.keys\<close>, each key once.  Numbers are doubles; their type \<open>'n\<close> and
  the two ways of printing them are parameters.  So is what \<^verbatim>\<open>key in item\<close> finds beyond
  the own properties: every object inherits the properties of \<^verbatim>\<open>Object.prototype\<close> and
  every array those of \<^verbatim>\<open>Array.prototype\<close>, and the table code reads them like own ones.
\<close>

datatype 'n json =
    JNull
  | JBool bool
  | JNumber 'n
  | JString string
  | JArray "'n json list"
  | JObject "(string \<times> 'n json) list"

record 'n jsenv =
  numToString :: "'n \<Rightarrow> string"  \<comment> \<open>\<^verbatim>\<open>String(n)\<close>\<close>
  numToJSON :: "'n \<Rightarrow> string"  \<comment> \<open>\<^verbatim>\<open>JSON.stringify(n)\<close>\<close>
  objectProtoCell :: "string \<Rightarrow> string option"
    \<comment> \<open>for a name that objects inherit from \<^verbatim>\<open>Object.prototype\<close>, the cell text the table
        code makes of the inherited value; \<open>None\<close> for any other name\<close>
  arrayProtoCell :: "string \<Rightarrow> string option"
    \<comment> \<open>the same for the names that arrays inherit\<close>

text \<open>\<^verbatim>\<open>typeof v === 'object' && v !== null\<close>.\<close>

fun isObject :: "'n json \<Rightarrow> bool" where
  "isObject (JArray _) = True"
| "isObject (JObject _) = True"
| "isObject _ = False"

fun typeof :: "'n json \<Rightarrow> string" where
  "typeof JNull = ''object''"
| "typeof (JBool _) = ''boolean''"
| "typeof (JNumber _) = ''number''"
| "typeof (JString _) = ''string''"
| "typeof (JArray _) = ''object''"
| "typeof (JObject _) = ''object''"

text \<open>\<^verbatim>\<open>Object.keys(v)\<close> for an object or an array.\<close>

fun objectKeys :: "'n json \<Rightarrow> string list" where
  "objectKeys (JObject entries) = map fst entries"
| "objectKeys (JArray items) = map showNat [0 ..< length items]"
| "objectKeys _ = []"

subsection \<open>Printing values\<close>

definition hexDigit :: "nat \<Rightarrow> char" where
  "hexDigit d = ''0123456789abcdef'' ! d"

text \<open>One character inside a JSON string literal.\<close>

definition quoteChar :: "char \<Rightarrow> string" where
  "quoteChar c =
     (if c = dq then [CHR 0x5C, dq]
      else if c = CHR 0x5C then [CHR 0x5C, CHR 0x5C]
      else if c = CHR 0x08 then [CHR 0x5C, CHR ''b'']
      else if c = CHR 0x0C then [CHR 0x5C, CHR ''f'']
      else if c = CHR 0x0A then [CHR 0x5C, CHR ''n'']
      else if c = CHR 0x0D then [CHR 0x5C, CHR ''r'']
      else if c = CHR 0x09 then [CHR 0x5C, CHR ''t'']
      else if (of_char c :: nat) < 32 then
        [CHR 0x5C, CHR ''u'', CHR ''0'', CHR ''0'',
         hexDigit ((of_char c :: nat) div 16), hexDigit ((of_char c :: nat) mod 16)]
      else [c])"

definition quoteJSON :: "string \<Rightarrow> string" where
  "quoteJSON s = [dq] @ concat (map quoteChar s) @ [dq]"

text \<open>\<^verbatim>\<open>JSON.stringify(v)\<close> without indentation.\<close>

fun stringify :: "'n jsenv \<Rightarrow> 'n json \<Rightarrow> string" where
  "stringify env JNull = ''null''"
| "stringify env (JBool b) = (if b then ''true'' else ''false'')"
| "stringify env (JNumber n) = numToJSON env n"
| "stringify env (JString s) = quoteJSON s"
| "stringify env (JArray items) = ''['' @ join '','' (map (stringify env) items) @ '']''"
| "stringify env (JObject entries) =
     ''{'' @ join '','' (map (\<lambda>entry. quoteJSON (fst entry) @ '':'' @ stringify env (snd entry))
                            entries) @ ''}''"

text \<open>\<^verbatim>\<open>String(v)\<close>; an array prints its elements separated by commas, \<^verbatim>\<open>null\<close> among
  them as the empty string.\<close>

fun toString :: "'n jsenv \<Rightarrow> 'n json \<Rightarrow> string" where
  "toString env JNull = ''null''"
| "toString env (JBool b) = (if b then ''true'' else ''false'')"
| "toString env (JNumber n) = numToString env n"
| "toString env (JString s) = s"
| "toString env (JArray items) =
     join '','' (map (\<lambda>item. if item = JNull then [] else toString env item) items)"
| "toString env (JObject entries) = ''[object Object]''"

subsection \<open>convertArrayToMarkdownTable\<close>

text \<open>The set \<^verbatim>\<open>allKeys\<close>, in insertion order, after \<^verbatim>\<open>allKeys.add(key)\<close>.\<close>

definition addKey :: "string list \<Rightarrow> string \<Rightarrow> string list" where
  "addKey allKeys key = (if key \<in> set allKeys then allKeys else allKeys @ [key])"

definition collectKeys :: "'n json list \<Rightarrow> string list" where
  "collectKeys array =
     foldl (\<lambda>allKeys item. if isObject item then foldl addKey allKeys (objectKeys item) else allKeys)
       [] array"

text \<open>
  One cell: \<^verbatim>\<open>item && typeof item === 'object' && key in item\<close>, then the value
  \<^verbatim>\<open>item[key]\<close>.  An own property wins over an inherited one; an array has its indices
  and \<^verbatim>\<open>length\<close> as own properties.
\<close>

definition valueCell :: "'n jsenv \<Rightarrow> 'n json \<Rightarrow> string" where
  "valueCell env value =
     (if value = JNull then []
      else if isObject value then escapePipes (stringify env value)
      else escapePipes (toString env value))"

fun cell :: "'n jsenv \<Rightarrow> 'n json \<Rightarrow> string \<Rightarrow> string" where
  "cell env (JObject entries) key =
     (case map_of entries key of
        Some value \<Rightarrow> valueCell env value
      | None \<Rightarrow> (case objectProtoCell env key of Some text \<Rightarrow> text | None \<Rightarrow> []))"
| "cell env (JArray items) key =
     (case map_of (zip (map showNat [0 ..< length items]) items) key of
        Some value \<Rightarrow> valueCell env value
      | None \<Rightarrow>
          if key = ''length'' then showNat (length items)
          else (case arrayProtoCell env key of Some text \<Rightarrow> text | None \<Rightarrow> []))"
| "cell env _ key = []"

text \<open>\<^verbatim>\<open>itemCounts.set(key, (itemCounts.get(key) || 0) + 1)\<close> on a map that keeps the
  order in which its keys were first set.\<close>

fun countItem :: "(string \<times> nat) list \<Rightarrow> string \<Rightarrow> (string \<times> nat) list" where
  "countItem [] key = [(key, 1)]"
| "countItem ((k, n) # itemCounts) key =
     (if k = key then (k, n + 1) # itemCounts else (k, n) # countItem itemCounts key)"

text \<open>\<^verbatim>\<open>sort(([,a], [,b]) => b - a)\<close>: by falling count; the sort is stable, as
  insertion into a sorted list before the first entry with a smaller count is.\<close>

fun insertByCount :: "string \<times> nat \<Rightarrow> (string \<times> nat) list \<Rightarrow> (string \<times> nat) list" where
  "insertByCount e [] = [e]"
| "insertByCount e (x # xs) = (if snd x < snd e then e # x # xs else x # insertByCount e xs)"

definition sortByCount :: "(string \<times> nat) list \<Rightarrow> (string \<times> nat) list" where
  "sortByCount entries = foldl (\<lambda>sorted e. insertByCount e sorted) [] entries"

definition convertArrayToMarkdownTable :: "'n jsenv \<Rightarrow> 'n json list \<Rightarrow> string" where
  "convertArrayToMarkdownTable env array =
     (if length array = 0 then ''**Empty array**'' @ [nl]
      else if isObject (array ! 0) then
        (let keys = collectKeys array in
         if length keys = 0 then ''**Array of empty objects**'' @ [nl]
         else ''**Array Table** ('' @ showNat (length array) @ '' items)'' @ [nl, nl]
              @ tableLine keys
              @ tableLine (map (\<lambda>_. ''---'') keys)
              @ concat (map (\<lambda>item. tableLine (map (cell env item) keys)) array))
      else
        (let markdown = ''**Array List** ('' @ showNat (length array) @ '' items)'' @ [nl, nl] in
         if 20 < length array then
           markdown @ ''**Item counts:**'' @ [nl]
           @ concat (map (\<lambda>(item, count).
                           ''- `'' @ item @ ''`: '' @ showNat count @ '' times'' @ [nl])
                         (sortByCount (foldl countItem [] (map (toString env) array))))
         else
           markdown
           @ join [nl] (map (\<lambda>(index, item). showNat (index + 1) @ ''. '' @ toString env item)
                            (zip [0 ..< length array] array))
           @ [nl]))"

subsection \<open>convertObjectToMarkdown\<close>

definition typeTag :: "'n json \<Rightarrow> string" where
  "typeTag value =
     (case value of
        JArray items \<Rightarrow> ''Array['' @ showNat (length items) @ '']''
      | _ \<Rightarrow> typeof value)"

definition preview :: "'n jsenv \<Rightarrow> 'n json \<Rightarrow> string" where
  "preview env value =
     (case value of
        JNull \<Rightarrow> ''null''
      | JArray items \<Rightarrow> ''['' @ showNat (length items) @ '' items]''
      | JObject entries \<Rightarrow>
          ''{'' @ join '', '' (take 3 (map fst entries))
          @ (if 3 < length entries then ''...'' else []) @ ''}''
      | _ \<Rightarrow> take 50 (toString env value)
             @ (if 50 < length (toString env value) then ''...'' else []))"

definition summaryTable :: "'n jsenv \<Rightarrow> (string \<times> 'n json) list \<Rightarrow> string" where
  "summaryTable env entries =
     ''## Property Summary'' @ [nl, nl]
     @ ''| Property | Type | Value Preview |'' @ [nl]
     @ ''| --- | --- | --- |'' @ [nl]
     @ concat (map (\<lambda>(key, value).
                     ''| '' @ key @ '' | '' @ typeTag value @ '' | ''
                     @ escapePipes (preview env value) @ '' |'' @ [nl]) entries)
     @ [nl] @ ''## Detailed Content'' @ [nl, nl]"

text \<open>The function takes the entries of the object, \<^verbatim>\<open>Object.entries(obj)\<close>.\<close>

fun convertObjectToMarkdown :: "'n jsenv \<Rightarrow> (string \<times> 'n json) list \<Rightarrow> nat \<Rightarrow> string" where
  "convertObjectToMarkdown env entries level =
     (if 10 < length entries then summaryTable env entries else [])
     @ concat (map (\<lambda>entry.
         replicate (min level 6) (CHR ''#'') @ '' '' @ fst entry @ [nl, nl]
         @ (case snd entry of
              JNull \<Rightarrow> ''*null*'' @ [nl, nl]
            | JArray items \<Rightarrow> convertArrayToMarkdownTable env items @ [nl]
            | JObject inner \<Rightarrow>
                if length inner = 0 then ''*Empty object*'' @ [nl, nl]
                else convertObjectToMarkdown env inner (level + 1)
            | JString value \<Rightarrow>
                if 100 < length value then ''```'' @ [nl] @ value @ [nl] @ ''```'' @ [nl, nl]
                else value @ [nl, nl]
            | value \<Rightarrow> toString env value @ [nl, nl])) entries)"

subsection \<open>convertJsonToMarkdown\<close>

text \<open>\<^verbatim>\<open>JSON.parse\<close> is a parameter: it returns the value, or throws a
  \<^verbatim>\<open>SyntaxError\<close> whose message is \<open>Inl\<close>'s argument.\<close>

definition convertJsonToMarkdown ::
  "'n jsenv \<Rightarrow> (string \<Rightarrow> string + 'n json) \<Rightarrow> string \<Rightarrow> string" where
  "convertJsonToMarkdown env parse jsonContent =
     (case parse jsonContent of
        Inr data \<Rightarrow>
          ''# JSON Data'' @ [nl, nl]
          @ (case data of
               JArray items \<Rightarrow>
                 ''**Type:** Array with '' @ showNat (length items) @ '' items'' @ [nl, nl]
                 @ convertArrayToMarkdownTable env items
             | JObject entries \<Rightarrow>
                 ''**Type:** Object with '' @ showNat (length entries) @ '' properties'' @ [nl, nl]
                 @ convertObjectToMarkdown env entries 2
             | _ \<Rightarrow>
                 ''**Type:** '' @ typeof data @ [nl, nl]
                 @ ''**Value:**'' @ [nl] @ ''```json'' @ [nl] @ stringify env data @ [nl]
                 @ ''```'' @ [nl])
      | Inl message \<Rightarrow>
          ''# Invalid JSON Content'' @ [nl, nl] @ ''**Error:** '' @ message @ [nl, nl]
          @ ''**Raw Content:**'' @ [nl] @ ''```json'' @ [nl] @ jsonContent @ [nl] @ ''```'' @ [nl])"


section \<open>Word-processing extractor\<close>

subsection \<open>The document\<close>

text \<open>
  What the extractor reads of the parsed \<^verbatim>\<open>word/document.xml\<close>.  An element is present
  or not (\<open>option\<close>); of an element only the attributes \<^verbatim>\<open>w:val\<close> and \<^verbatim>\<open>val\<close> are
  read, each present or not.  A run carries the text contents of its text nodes and
  the text content of the first text node of its next sibling element, when there is
  one.
\<close>

record attrs =
  attr_w_val :: "string option"
  attr_val :: "string option"

record pPr =
  pStyle :: "attrs option"
  outlineLvl :: "attrs option"

record rPr =
  boldElem :: "attrs option"
  italicElem :: "attrs option"

record run =
  rPr :: "rPr option"
  texts :: "string list"
  nextText :: "string option"

record docParagraph =
  pPr :: "pPr option"
  runs :: "run list"

text \<open>\<^verbatim>\<open>a || b\<close> on attribute values: \<^verbatim>\<open>null\<close> and the empty string are falsy.\<close>

definition orElse :: "string option \<Rightarrow> string option \<Rightarrow> string option" where
  "orElse a b = (case a of Some s \<Rightarrow> if s \<noteq> [] then Some s else b | None \<Rightarrow> b)"

subsection \<open>Numbers\<close>

text \<open>
  A JavaScript number that is an integer or \<^verbatim>\<open>NaN\<close> is modelled as an \<^typ>\<open>int option\<close>,
  \<open>None\<close> for \<^verbatim>\<open>NaN\<close>.  The integers are exact: the rounding of \<^verbatim>\<open>parseInt\<close> beyond
  \<open>2^53\<close> is not modelled, and neither is the \<^verbatim>\<open>RangeError\<close> of \<^verbatim>\<open>repeat\<close> for a count
  beyond the longest string of the engine.
\<close>

definition digitValue :: "char \<Rightarrow> nat" where
  "digitValue c =
     (case map_of (zip ''0123456789abcdefABCDEF''
                       [0, 1, 2, 3, 4, 5, 6, 7, 8, 9, 10, 11, 12, 13, 14, 15, 10, 11, 12, 13, 14, 15]) c of
        Some d \<Rightarrow> d
      | None \<Rightarrow> 0)"

definition digitsValue :: "nat \<Rightarrow> string \<Rightarrow> nat" where
  "digitsValue radix digits = foldl (\<lambda>n c. n * radix + digitValue c) 0 digits"

definition isHexDigit :: "char \<Rightarrow> bool" where
  "isHexDigit c \<longleftrightarrow> c \<in> set ''0123456789abcdefABCDEF''"

text \<open>\<^verbatim>\<open>parseInt(s)\<close> without a radix: leading white space, a sign, then hexadecimal
  digits after \<^verbatim>\<open>0x\<close> or decimal digits; \<^verbatim>\<open>NaN\<close> when there is no digit.\<close>

definition parseUnsigned :: "string \<Rightarrow> nat option" where
  "parseUnsigned s =
     (if map asciiLower (take 2 s) = ''0x'' then
        (let digits = takeWhile isHexDigit (drop 2 s) in
         if digits = [] then None else Some (digitsValue 16 digits))
      else
        (let digits = takeWhile isDigit s in
         if digits = [] then None else Some (digitsValue 10 digits)))"

definition parseInt :: "string \<Rightarrow> int option" where
  "parseInt s =
     (case trimStart s of
        [] \<Rightarrow> None
      | c # cs \<Rightarrow>
          if c = CHR ''-'' then map_option (\<lambda>n. - int n) (parseUnsigned cs)
          else if c = CHR ''+'' then map_option int (parseUnsigned cs)
          else map_option int (parseUnsigned (c # cs)))"

subsection \<open>getHeadingLevel\<close>

text \<open>\<^verbatim>\<open>val.match(/[Hh]eading(\d+)/)\<close>: the digits behind the leftmost \<^verbatim>\<open>Heading\<close> or
  \<^verbatim>\<open>heading\<close> that is followed by a digit.\<close>

fun headingMatch :: "string \<Rightarrow> string option" where
  "headingMatch [] = None"
| "headingMatch (c # cs) =
     (let digits = takeWhile isDigit (drop 7 (c # cs)) in
      if (startsWith (c # cs) ''Heading'' \<or> startsWith (c # cs) ''heading'') \<and> digits \<noteq> []
      then Some digits
      else headingMatch cs)"

definition styleLevel :: "attrs option \<Rightarrow> int option option" where
  "styleLevel style =
     (case style of
        None \<Rightarrow> None
      | Some styleElem \<Rightarrow>
          (case orElse (attr_w_val styleElem) (attr_val styleElem) of
             None \<Rightarrow> None
           | Some val \<Rightarrow>
               (case headingMatch val of
                  Some digits \<Rightarrow> Some (parseInt digits)
                | None \<Rightarrow>
                    if includesStr val ''Title'' then Some (Some 1)
                    else if includesStr val ''Subtitle'' then Some (Some 2)
                    else None)))"

definition getHeadingLevel :: "docParagraph \<Rightarrow> int option" where
  "getHeadingLevel paragraph =
     (case pPr paragraph of
        None \<Rightarrow> Some 0
      | Some props \<Rightarrow>
          (case styleLevel (pStyle props) of
             Some level \<Rightarrow> level
           | None \<Rightarrow>
               (case outlineLvl props of
                  Some lvl \<Rightarrow>
                    (case parseInt (case orElse (attr_w_val lvl) (attr_val lvl) of
                                      Some v \<Rightarrow> v | None \<Rightarrow> ''0'') of
                       Some level \<Rightarrow> Some (min (level + 1) 6)
                     | None \<Rightarrow> None)
                | None \<Rightarrow> Some 0)))"

subsection \<open>extractParagraphText\<close>

record formatting =
  bold :: bool
  italic :: bool

text \<open>An element switches its format on when it is present and its \<^verbatim>\<open>w:val\<close> is absent
  or other than \<^verbatim>\<open>0\<close>.\<close>

definition switchedOn :: "attrs option \<Rightarrow> bool" where
  "switchedOn elem \<longleftrightarrow>
     (case elem of None \<Rightarrow> False | Some a \<Rightarrow> attr_w_val a \<noteq> Some ''0'')"

definition getSimpleRunFormatting :: "run \<Rightarrow> formatting" where
  "getSimpleRunFormatting r =
     (case rPr r of
        None \<Rightarrow> \<lparr>bold = False, italic = False\<rparr>
      | Some props \<Rightarrow>
          \<lparr>bold = switchedOn (boldElem props), italic = switchedOn (italicElem props)\<rparr>)"

definition addText :: "run \<Rightarrow> string \<Rightarrow> string \<Rightarrow> string" where
  "addText r fullText text =
     (if text \<noteq> [] then
        (let formatting = getSimpleRunFormatting r in
         if bold formatting \<and> trim text \<noteq> [] then fullText @ ''**'' @ text @ ''**''
         else if italic formatting \<and> trim text \<noteq> [] then fullText @ ''*'' @ text @ ''*''
         else fullText @ text)
      else fullText)"

definition addRun :: "string \<Rightarrow> run \<Rightarrow> string" where
  "addRun fullText r =
     (let fullText = foldl (addText r) fullText (texts r) in
      if fullText \<noteq> [] \<and> \<not> isSpace (last fullText) then
        (case nextText r of
           Some next \<Rightarrow>
             if next \<noteq> [] \<and> \<not> startsWith next '' '' then fullText @ '' '' else fullText
         | None \<Rightarrow> fullText)
      else fullText)"

text \<open>\<^verbatim>\<open>/\s+/g\<close> replaced by one space.\<close>

definition whiteSpaceRun :: matcher where
  "whiteSpaceRun prev s =
     (let n = length (takeWhile isSpace s) in if 1 \<le> n then Some ('' '', n) else None)"

definition extractParagraphText :: "docParagraph \<Rightarrow> string" where
  "extractParagraphText paragraph =
     (let headingLevel = getHeadingLevel paragraph;
          fullText = foldl addRun [] (runs paragraph);
          fullText = trim (replaceAll whiteSpaceRun fullText)
      in case headingLevel of
           Some level \<Rightarrow>
             if 0 < level \<and> fullText \<noteq> []
             then replicate (nat level) (CHR ''#'') @ '' '' @ fullText
             else fullText
         | None \<Rightarrow> fullText)"

subsection \<open>readDocxFile\<close>

text \<open>A thrown value is an \<^verbatim>\<open>Error\<close> with its message, or something else.\<close>

datatype thrown = Error string | NonError

definition errorMessage :: "thrown \<Rightarrow> string" where
  "errorMessage e = (case e of Error message \<Rightarrow> message | NonError \<Rightarrow> ''Unknown error'')"

text \<open>
  Unpacking the file is the work of the browser and of the zip library: it fails with
  a thrown value, or finds no \<^verbatim>\<open>word/document.xml\<close> (or an empty one), or gives the
  paragraphs of the parsed document in document order.
\<close>

datatype docxPackage =
    LoadFailed thrown
  | NoDocumentXml
  | DocumentXml "docParagraph list"

definition readDocxBody :: "docxPackage \<Rightarrow> thrown + string" where
  "readDocxBody package =
     (case package of
        LoadFailed e \<Rightarrow> Inl e
      | NoDocumentXml \<Rightarrow> Inl (Error ''Could not find document content in DOCX file'')
      | DocumentXml paragraphs \<Rightarrow>
          (let markdown = concat (map (\<lambda>paragraph.
                 let paragraphText = extractParagraphText paragraph in
                 if trim paragraphText \<noteq> [] then paragraphText @ [nl, nl] else []) paragraphs)
           in Inr (if trim markdown \<noteq> [] then trim markdown
                   else ''No readable content found in DOCX file'')))"

definition readDocxFile :: "docxPackage \<Rightarrow> thrown + string" where
  "readDocxFile package =
     (case readDocxBody package of
        Inl e \<Rightarrow> Inl (Error (''Failed to read DOCX file: '' @ errorMessage e))
      | Inr markdown \<Rightarrow> Inr markdown)"


section \<open>Format dispatcher\<close>

subsection \<open>Files\<close>

text \<open>
  A file has its name and its MIME type, and what reading it gives: as text (the
  \<^verbatim>\<open>FileReader\<close> loads a string, loads something else, or fails) and as a
  word-processing package.
\<close>

datatype textRead = Loaded string | LoadedOther | ReadFailed

record inputFile =
  name :: string
  type :: string
  asText :: textRead
  docx :: docxPackage

record markdownFile =
  name :: string
  content :: string
  originalFile :: string

text \<open>What the converter takes from outside: the printing of numbers, \<^verbatim>\<open>JSON.parse\<close>,
  and the hypertext transform, which returns Markdown or throws.\<close>

record 'n externals =
  jsonEnv :: "'n jsenv"
  jsonParse :: "string \<Rightarrow> string + 'n json"
  csvNumbers :: numfmt
  turndown :: "string \<Rightarrow> thrown + string"

text \<open>\<^verbatim>\<open>toLowerCase\<close> in the range of the model.\<close>

definition toLowerChar :: "char \<Rightarrow> char" where
  "toLowerChar c =
     (let n = (of_char c :: nat) in
      if (65 \<le> n \<and> n \<le> 90) \<or> (192 \<le> n \<and> n \<le> 222 \<and> n \<noteq> 215) then char_of (n + 32) else c)"

definition toLowerCase :: "string \<Rightarrow> string" where
  "toLowerCase s = map toLowerChar s"

subsection \<open>readFileContent\<close>

definition readFileContent :: "inputFile \<Rightarrow> thrown + string" where
  "readFileContent f =
     (let fileName = toLowerCase (inputFile.name f); fileType = toLowerCase (type f) in
      if endsWith fileName ''.docx'' \<or> includesStr fileType ''wordprocessingml''
      then readDocxFile (docx f)
      else (case asText f of
              Loaded result \<Rightarrow> Inr result
            | LoadedOther \<Rightarrow> Inl (Error ''Failed to read file as text'')
            | ReadFailed \<Rightarrow> Inl (Error ''Error reading file'')))"

subsection \<open>convertXmlToMarkdown\<close>

text \<open>\<^verbatim>\<open>/<([^>]+)>/g\<close> with the callback that writes the tag again.\<close>

definition xmlTag :: matcher where
  "xmlTag prev s =
     (case s of
        [] \<Rightarrow> None
      | c # t \<Rightarrow>
          (let tagContent = takeWhile (\<lambda>d. d \<noteq> CHR ''>'') t in
           if c = CHR ''<'' \<and> tagContent \<noteq> [] \<and> length tagContent < length t then
             Some (if startsWith tagContent ''/'' then ''</'' @ drop 1 tagContent @ ''>''
                   else ''<'' @ tagContent @ ''>'',
                   length tagContent + 2)
           else None))"

definition convertXmlToMarkdown :: "(string \<Rightarrow> thrown + string) \<Rightarrow> string \<Rightarrow> string" where
  "convertXmlToMarkdown turndownService xmlContent =
     (let htmlContent = replaceAll xmlTag xmlContent in
      case turndownService htmlContent of
        Inr markdown \<Rightarrow> ''# XML Content'' @ [nl, nl] @ markdown
      | Inl e \<Rightarrow> ''# XML Content'' @ [nl, nl] @ ''```xml'' @ [nl] @ xmlContent @ [nl] @ ''```'' @ [nl])"

subsection \<open>convertContentToMarkdown\<close>

definition convertContentToMarkdown :: "'n externals \<Rightarrow> string \<Rightarrow> inputFile \<Rightarrow> thrown + string" where
  "convertContentToMarkdown ext fileContent f =
     (let fileType = toLowerCase (type f); fileName = toLowerCase (inputFile.name f) in
      if endsWith fileName ''.docx'' \<or> includesStr fileType ''wordprocessingml'' then
        Inl (Error ''DOCX file should be processed by readDocxFile, not convertContentToMarkdown'')
      else
        (case (if includesStr fileType ''html'' \<or> endsWith fileName ''.html''
                  \<or> endsWith fileName ''.htm''
               then turndown ext fileContent
               else if includesStr fileType ''json'' \<or> endsWith fileName ''.json''
               then Inr (convertJsonToMarkdown (jsonEnv ext) (jsonParse ext) fileContent)
               else if includesStr fileType ''csv'' \<or> endsWith fileName ''.csv''
               then Inr (convertCsvToMarkdown (csvNumbers ext) fileContent)
               else if includesStr fileType ''xml'' \<or> endsWith fileName ''.xml''
               then Inr (convertXmlToMarkdown (turndown ext) fileContent)
               else Inr (convertPlainTextToMarkdown fileContent)) of
           Inl e \<Rightarrow> Inl e
         | Inr processedContent \<Rightarrow> Inr (cleanupMarkdownContent processedContent)))"

subsection \<open>convertFilesToMarkdown\<close>

text \<open>\<^verbatim>\<open>inputFile.name.replace(/\.[^/.]+$/, '')\<close>: the last dot and what follows it are
  removed when at least one character follows and none of them is a slash.\<close>

definition stripExtension :: "string \<Rightarrow> string" where
  "stripExtension fileName =
     (let extension = rev (takeWhile (\<lambda>c. c \<noteq> CHR ''.'') (rev fileName)) in
      if length extension < length fileName \<and> extension \<noteq> [] \<and> CHR ''/'' \<notin> set extension
      then take (length fileName - length extension - 1) fileName
      else fileName)"

text \<open>The test of the loop body for a word-processing file; the type is not put in
  lower case here.\<close>

definition isDocxFile :: "inputFile \<Rightarrow> bool" where
  "isDocxFile f \<longleftrightarrow>
     endsWith (toLowerCase (inputFile.name f)) ''.docx'' \<or> includesStr (type f) ''wordprocessingml''"

text \<open>The body of the \<^verbatim>\<open>try\<close> block: the file pushed, or the value thrown.\<close>

definition convertFile :: "'n externals \<Rightarrow> inputFile \<Rightarrow> thrown + markdownFile" where
  "convertFile ext f =
     (let fileName = stripExtension (inputFile.name f) @ ''.md'' in
      case (if isDocxFile f then readFileContent f
            else (case readFileContent f of
                    Inl e \<Rightarrow> Inl e
                  | Inr fileContent \<Rightarrow> convertContentToMarkdown ext fileContent f)) of
        Inl e \<Rightarrow> Inl e
      | Inr markdownContent \<Rightarrow>
          Inr \<lparr>name = fileName, content = markdownContent, originalFile = inputFile.name f\<rparr>)"

text \<open>The file pushed by the \<^verbatim>\<open>catch\<close> block.\<close>

definition errorFile :: "inputFile \<Rightarrow> thrown \<Rightarrow> markdownFile" where
  "errorFile f e =
     \<lparr>name = ''ERROR_'' @ inputFile.name f @ ''.md'',
      content = ''# Conversion Error'' @ [nl, nl] @ ''**File:** '' @ inputFile.name f @ [nl]
                @ ''**Error:** '' @ errorMessage e @ [nl, nl]
                @ ''*This file could not be converted to markdown.*'',
      originalFile = inputFile.name f\<rparr>"

text \<open>
  The loop from index \<open>i\<close> on, over \<^verbatim>\<open>files.slice(i)\<close>.  The state is the list of the
  arguments \<^verbatim>\<open>onProgress\<close> has been called with and \<^verbatim>\<open>markdownFiles\<close>.
\<close>

fun convertLoop ::
  "'n externals \<Rightarrow> nat \<Rightarrow> inputFile list \<Rightarrow> nat list \<times> markdownFile list \<Rightarrow> nat list \<times> markdownFile list" where
  "convertLoop ext i [] (progress, markdownFiles) = (progress, markdownFiles)"
| "convertLoop ext i (f # files) (progress, markdownFiles) =
     convertLoop ext (i + 1) files
       (progress @ [i],
        markdownFiles @ [case convertFile ext f of
                           Inr converted \<Rightarrow> converted
                         | Inl e \<Rightarrow> errorFile f e])"

definition convertFilesToMarkdown ::
  "'n externals \<Rightarrow> inputFile list \<Rightarrow> nat list \<times> markdownFile list" where
  "convertFilesToMarkdown ext files =
     (case convertLoop ext 0 files ([], []) of
        (progress, markdownFiles) \<Rightarrow> (progress @ [length files], markdownFiles))"


section \<open>Reference points for the properties\<close>

text \<open>
  The heading level in the words of the specification, for comparison with
  \<open>getHeaderLevel\<close>: level 1 for the first non-blank line or a line starting with
  Chapter or Part, level 2 for a line shorter than 30 characters and fully upper-case or
  starting with Section, level 3 otherwise.  ``Starts with'' is the test of the source.
\<close>

definition claimedHeaderLevel :: "string \<Rightarrow> nat \<Rightarrow> string list \<Rightarrow> nat" where
  "claimedHeaderLevel line index lines =
     (if index = 0 \<or> list_all (\<lambda>l. trim l = []) (take index lines)
         \<or> keywordThenSpace [''chapter'', ''part''] line then 1
      else if (length line < 30 \<and> isUpperCased line) \<or> keywordThenSpace [''section''] line then 2
      else 3)"

text \<open>
  One choice of the outside functions, for the examples: numbers are natural numbers
  printed in decimal, nothing is inherited under the names that occur, \<^verbatim>\<open>JSON.parse\<close>
  rejects its input, the summary prints dashes, and the hypertext transform returns its
  input.
\<close>

definition plainEnv :: "nat jsenv" where
  "plainEnv = \<lparr>numToString = showNat, numToJSON = showNat,
                objectProtoCell = (\<lambda>key. None), arrayProtoCell = (\<lambda>key. None)\<rparr>"

definition plainExternals :: "nat externals" where
  "plainExternals =
     \<lparr>jsonEnv = plainEnv,
      jsonParse = (\<lambda>s. Inl ''Unexpected token''),
      csvNumbers = \<lparr>average = (\<lambda>values. ''-''), minimum = (\<lambda>values. ''-''),
                     maximum = (\<lambda>values. ''-'')\<rparr>,
      turndown = (\<lambda>html. Inr html)\<rparr>"


text \<open>Files for the examples: a file whose text loads, a file whose reading fails, and a
  word-processing file with the given paragraphs.\<close>

definition textFile :: "string \<Rightarrow> string \<Rightarrow> inputFile" where
  "textFile fileName fileContent =
     \<lparr>inputFile.name = fileName, type = ''text/plain'', asText = Loaded fileContent, docx = NoDocumentXml\<rparr>"

definition unreadableFile :: "string \<Rightarrow> inputFile" where
  "unreadableFile fileName =
     \<lparr>inputFile.name = fileName, type = ''text/csv'', asText = ReadFailed, docx = NoDocumentXml\<rparr>"

definition docxFile :: "string \<Rightarrow> docParagraph list \<Rightarrow> inputFile" where
  "docxFile fileName paragraphs =
     \<lparr>inputFile.name = fileName,
      type = ''application/vnd.openxmlformats-officedocument.wordprocessingml.document'',
      asText = LoadedOther, docx = DocumentXml paragraphs\<rparr>"

text \<open>A paragraph with the given style name and one unformatted run.\<close>

definition styledParagraph :: "string \<Rightarrow> string \<Rightarrow> docParagraph" where
  "styledParagraph style runText =
     \<lparr>pPr = Some \<lparr>pStyle = Some \<lparr>attr_w_val = Some style, attr_val = None\<rparr>, outlineLvl = None\<rparr>,
      runs = [\<lparr>rPr = None, texts = [runText], nextText = None\<rparr>]\<rparr>"


section \<open>Properties of the string primitives\<close>

lemma dropWhile_rev_keep_head:
  assumes "dropWhile P xs = xs"
  shows "dropWhile P (rev (dropWhile P (rev xs))) = rev (dropWhile P (rev xs))"
proof (cases xs)
  case Nil then show ?thesis by simp
next
  case (Cons x xs')
  have "length (dropWhile P xs') \<le> length xs'" by (rule length_dropWhile_le)
  with assms Cons have nx: "\<not> P x" by (auto split: if_splits)
  have "dropWhile P (rev xs' @ [x]) = dropWhile P (rev xs') @ [x] \<or> dropWhile P (rev xs' @ [x]) = [x]"
    using nx by (simp add: dropWhile_append)
  then show ?thesis using nx Cons by (auto)
qed

lemma trim_idem: "trim (trim s) = trim s"
proof -
  have a: "dropWhile isSpace (trim s) = trim s"
    unfolding trim_def trimEnd_def trimStart_def
    by (rule dropWhile_rev_keep_head) simp
  show ?thesis
    unfolding trim_def[of "trim s"] trimStart_def a
    by (simp add: trim_def trimEnd_def)
qed

lemma trim_empty [simp]: "trim [] = []"
  by (simp add: trim_def trimStart_def trimEnd_def)

lemma split_nonempty [simp]: "split sep s \<noteq> []"
  by (induction s) (auto split: list.splits)


section \<open>Properties of the tabular converter\<close>

subsection \<open>The field parser\<close>

lemma csvLoop_result: "csvLoop (r0 @ result) current q s = r0 @ csvLoop result current q s"
  by (induction result current q s rule: csvLoop.induct) (simp_all add: dq_def)

lemma csvLoop_nonempty: "csvLoop result current q s \<noteq> []"
  by (induction result current q s rule: csvLoop.induct) (simp_all add: dq_def)

lemma csvLoop_trimmed:
  "\<forall>f \<in> set result. trim f = f \<Longrightarrow> f \<in> set (csvLoop result current q s) \<Longrightarrow> trim f = f"
proof (induction result current q s rule: csvLoop.induct)
  case (1 result current inQuotes)
  then show ?case by (auto simp: trim_idem)
next
  case (2 result current inQuotes c cs)
  have t: "\<forall>f \<in> set (result @ [trim current]). trim f = f"
    using 2(5) by (simp add: trim_idem)
  from 2 t show ?case by (simp add: dq_def split: if_splits)
qed

lemma csvLoop_quoted:
  "dq \<notin> set w \<Longrightarrow> csvLoop result current True (w @ rest) = csvLoop result (current @ w) True rest"
  by (induction w arbitrary: current) (auto simp: dq_def)

lemma csvLoop_plain:
  "dq \<notin> set s \<Longrightarrow>
   csvLoop result current False s =
     result @ trim (current @ hd (split (CHR '','') s)) # map trim (tl (split (CHR '','') s))"
proof (induction s arbitrary: result current)
  case Nil then show ?case by simp
next
  case (Cons c s)
  then show ?case by (auto simp: dq_def split: list.splits)
qed

lemma csvLoop_plain_comma:
  "dq \<notin> set p \<Longrightarrow>
   csvLoop result current False (p @ CHR '','' # rest) =
     csvLoop (result @ trim (current @ hd (split (CHR '','') p)) # map trim (tl (split (CHR '','') p)))
       [] False rest"
proof (induction p arbitrary: result current)
  case Nil then show ?case by (simp add: dq_def)
next
  case (Cons c p)
  then show ?case by (auto simp: dq_def split: list.splits)
qed

text \<open>
  Claim C4.  The per-line field parser: a quote character toggles the in-quotes flag, a
  doubled quote inside quotes is an escaped literal quote, a comma outside quotes ends a
  field, and every field is trimmed.  The first conjunct is the line of the
  specification; the next three are the three branches of the loop; the remaining ones
  say what they amount to for whole lines: every cell is trimmed, a line without quotes
  is split at its commas, fields before a comma that is outside quotes are finished,
  a quoted field keeps its commas, and a doubled quote inside it is one quote.
\<close>

theorem parseCSVLine_fields:
  \<open>parseCSVLine ''a,"b,c","d""e"'' = [''a'', ''b,c'', ''d"e'']
   \<and> (\<not> (inQuotes \<and> nextIsQuote cs) \<longrightarrow>
        csvLoop result current inQuotes (dq # cs) = csvLoop result current (\<not> inQuotes) cs)
   \<and> (nextIsQuote cs \<longrightarrow>
        csvLoop result current True (dq # cs) = csvLoop result (current @ [dq]) True (tl cs))
   \<and> csvLoop result current False (CHR '','' # cs) = csvLoop (result @ [trim current]) [] False cs
   \<and> (\<forall>f \<in> set (parseCSVLine line). trim f = f)
   \<and> (dq \<notin> set line \<longrightarrow> parseCSVLine line = map trim (split (CHR '','') line))
   \<and> (dq \<notin> set p \<longrightarrow>
        parseCSVLine (p @ CHR '','' # rest) = map trim (split (CHR '','') p) @ parseCSVLine rest)
   \<and> (dq \<notin> set w \<longrightarrow> parseCSVLine (dq # w @ [dq]) = [trim w])
   \<and> (dq \<notin> set u \<and> dq \<notin> set v \<longrightarrow>
        parseCSVLine (dq # u @ dq # dq # v @ [dq]) = [trim (u @ dq # v)])\<close>
proof (intro conjI impI)
  show \<open>parseCSVLine ''a,"b,c","d""e"'' = [''a'', ''b,c'', ''d"e'']\<close>
    by code_simp
  show "csvLoop result current inQuotes (dq # cs) = csvLoop result current (\<not> inQuotes) cs"
    if "\<not> (inQuotes \<and> nextIsQuote cs)"
    using that by auto
  show "csvLoop result current True (dq # cs) = csvLoop result (current @ [dq]) True (tl cs)"
    if "nextIsQuote cs"
    using that by simp
  show "csvLoop result current False (CHR '','' # cs) = csvLoop (result @ [trim current]) [] False cs"
    by (simp add: dq_def)
  show "\<forall>f \<in> set (parseCSVLine line). trim f = f"
    unfolding parseCSVLine_def using csvLoop_trimmed [of "[]" _ "[]" False line] by simp
  show "parseCSVLine line = map trim (split (CHR '','') line)" if "dq \<notin> set line"
    using csvLoop_plain [OF that, of "[]" "[]"] split_nonempty [of "CHR '',''" line]
    by (cases "split (CHR '','') line") (simp_all add: parseCSVLine_def)
  show "parseCSVLine (p @ CHR '','' # rest) = map trim (split (CHR '','') p) @ parseCSVLine rest"
    if "dq \<notin> set p"
    using csvLoop_plain_comma [OF that, of "[]" "[]" rest] split_nonempty [of "CHR '',''" p]
      csvLoop_result [of "map trim (split (CHR '','') p)" "[]" "[]" False rest]
    by (cases "split (CHR '','') p") (simp_all add: parseCSVLine_def)
  show "parseCSVLine (dq # w @ [dq]) = [trim w]" if "dq \<notin> set w"
    using csvLoop_quoted [OF that, of "[]" "[]" "[dq]"]
    by (simp add: parseCSVLine_def nextIsQuote_def)
  show "parseCSVLine (dq # u @ dq # dq # v @ [dq]) = [trim (u @ dq # v)]"
    if "dq \<notin> set u \<and> dq \<notin> set v"
    using csvLoop_quoted [of u "[]" "[]" "dq # dq # v @ [dq]"]
      csvLoop_quoted [of v "[]" "u @ [dq]" "[dq]"] that
    by (simp add: parseCSVLine_def nextIsQuote_def)
qed

theorem parseCSVLine_fields_witness:
  \<open>dq \<notin> set ''x , y'' \<and> parseCSVLine ''x , y'' = [''x'', ''y'']
   \<and> dq \<notin> set ''p,q'' \<and> parseCSVLine (''p,q'' @ CHR '','' # [dq, CHR ''r'', CHR '','', dq]) = [''p'', ''q'', ''r,'']
   \<and> dq \<notin> set ''k, l'' \<and> parseCSVLine (dq # ''k, l'' @ [dq]) = [''k, l'']
   \<and> parseCSVLine (dq # ''m'' @ dq # dq # ''n'' @ [dq]) = [[CHR ''m'', dq, CHR ''n'']]
   \<and> nextIsQuote [dq, dq] \<and> csvLoop [] ''m'' True (dq # [dq, dq]) = [[CHR ''m'', dq]]
   \<and> map trim (parseCSVLine '' a , b '') = parseCSVLine '' a , b ''\<close>
  using parseCSVLine_fields [where line = "'' a , b ''" and p = "''p,q''" and rest = "[dq, CHR ''r'', CHR '','', dq]"
      and w = "''k, l''" and u = "''m''" and v = "''n''" and cs = "[dq, dq]" and current = "''m''" and result = "[]"]
    parseCSVLine_fields [where line = "''x , y''"]
  by (simp add: dq_def nextIsQuote_def trim_def trimStart_def trimEnd_def isSpace_def parseCSVLine_def)

subsection \<open>Numeric columns\<close>

lemma countCells_filter:
  "countCells rows colIndex (n, t) =
     (n + length (filter parsesAsNumber (filter (\<lambda>v. v \<noteq> [])
            (map (\<lambda>r. trim (r ! colIndex)) (filter (\<lambda>r. colIndex < length r) rows)))),
      t + length (filter (\<lambda>v. v \<noteq> [])
            (map (\<lambda>r. trim (r ! colIndex)) (filter (\<lambda>r. colIndex < length r) rows))))"
proof (induction rows arbitrary: n t)
  case Nil then show ?case by simp
next
  case (Cons row rows)
  have e: "trim [] = []" by (simp add: trim_def trimStart_def trimEnd_def)
  show ?case using Cons [of "Suc n" "Suc t"] Cons [of n "Suc t"] Cons [of n t]
    by (auto simp: e)
qed

lemma sampleRows_take: "sampleRows rows = take 10 (tl rows)"
  by (cases rows) (auto simp: sampleRows_def min_def drop_Suc)

lemma sampleRows_take11: "sampleRows (take 11 rows) = sampleRows rows"
  by (cases rows) (simp_all add: sampleRows_take take_Cons')

lemma isNumericColumn_take11: "isNumericColumn (take 11 rows) = isNumericColumn rows"
  by (rule ext) (simp add: isNumericColumn_def sampleRows_take11)

lemma detectNumericColumns_take11: "detectNumericColumns (take 11 rows) = detectNumericColumns rows"
proof (cases "length rows < 2")
  case True
  then show ?thesis by (simp add: detectNumericColumns_def)
next
  case False
  then have "take 11 rows ! 0 = rows ! 0" by simp
  with False show ?thesis
    by (simp add: detectNumericColumns_def isNumericColumn_take11)
qed

lemma detectNumericColumns_iff:
  "colIndex \<in> set (detectNumericColumns rows) \<longleftrightarrow>
      2 \<le> length rows \<and> colIndex < length (hd rows) \<and>
      (let values = filter (\<lambda>v. v \<noteq> [])
             (map (\<lambda>r. trim (r ! colIndex)) (filter (\<lambda>r. colIndex < length r) (take 10 (tl rows))))
       in values \<noteq> [] \<and> 7 * length values \<le> 10 * length (filter parsesAsNumber values))"
proof -
  define vals where "vals = filter (\<lambda>v. v \<noteq> [])
             (map (\<lambda>r. trim (r ! colIndex)) (filter (\<lambda>r. colIndex < length r) (take 10 (tl rows))))"
  have cc: "countCells (sampleRows rows) colIndex (0, 0) = (length (filter parsesAsNumber vals), length vals)"
    unfolding vals_def sampleRows_take countCells_filter by simp
  show ?thesis
  proof (cases "length rows < 2")
    case True
    then show ?thesis by (simp add: detectNumericColumns_def)
  next
    case False
    then have "rows \<noteq> []" by auto
    then have "rows ! 0 = hd rows" by (simp add: hd_conv_nth)
    with False cc show ?thesis
      unfolding Let_def vals_def [symmetric]
      by (auto simp: detectNumericColumns_def isNumericColumn_def)
  qed
qed

text \<open>
  Claim C5.  A column of the header is flagged numeric exactly when, among the values of
  that column in the first ten data rows that are non-empty after trimming, there is at
  least one and at least 70% of them parse as a number (a column with no non-empty
  sampled value has no such percentage and is not flagged).  Rows after the tenth data
  row play no part.  With 7 numeric values of 10 the column is flagged, with 6 of 10 it
  is not.
\<close>

theorem detectNumericColumns_sample:
  "(colIndex \<in> set (detectNumericColumns rows) \<longleftrightarrow>
      2 \<le> length rows \<and> colIndex < length (hd rows) \<and>
      (let values = filter (\<lambda>v. v \<noteq> [])
             (map (\<lambda>r. trim (r ! colIndex)) (filter (\<lambda>r. colIndex < length r) (take 10 (tl rows))))
       in values \<noteq> [] \<and> 7 * length values \<le> 10 * length (filter parsesAsNumber values)))
   \<and> detectNumericColumns rows = detectNumericColumns (take 11 rows)
   \<and> detectNumericColumns
         [[''n''], [''1''], [''2.5''], [''x''], [''-3''], [''4''], [''y''], [''5e2''], [''z''], [''.5''], [''7'']] = [0]
   \<and> detectNumericColumns
         [[''n''], [''1''], [''2.5''], [''x''], [''-3''], [''4''], [''y''], [''5e2''], [''z''], [''w''], [''7'']] = []"
proof (intro conjI)
  show "colIndex \<in> set (detectNumericColumns rows) \<longleftrightarrow>
      2 \<le> length rows \<and> colIndex < length (hd rows) \<and>
      (let values = filter (\<lambda>v. v \<noteq> [])
             (map (\<lambda>r. trim (r ! colIndex)) (filter (\<lambda>r. colIndex < length r) (take 10 (tl rows))))
       in values \<noteq> [] \<and> 7 * length values \<le> 10 * length (filter parsesAsNumber values))"
    by (rule detectNumericColumns_iff)
  show "detectNumericColumns rows = detectNumericColumns (take 11 rows)"
    by (simp add: detectNumericColumns_take11)
  show "detectNumericColumns
         [[''n''], [''1''], [''2.5''], [''x''], [''-3''], [''4''], [''y''], [''5e2''], [''z''], [''.5''], [''7'']] = [0]"
    by code_simp
  show "detectNumericColumns
         [[''n''], [''1''], [''2.5''], [''x''], [''-3''], [''4''], [''y''], [''5e2''], [''z''], [''w''], [''7'']] = []"
    by code_simp
qed

theorem detectNumericColumns_sample_witness:
  "0 \<in> set (detectNumericColumns [[''n''], [''1''], [''x''], [''2''], [''3'']])
   \<and> 0 \<notin> set (detectNumericColumns [[''n''], [''1''], [''x''], [''y''], [''3'']])"
  using detectNumericColumns_sample [of 0 "[[''n''], [''1''], [''x''], [''2''], [''3'']]"]
    detectNumericColumns_sample [of 0 "[[''n''], [''1''], [''x''], [''y''], [''3'']]"]
  by (simp add: Let_def trim_def trimStart_def trimEnd_def isSpace_def parsesAsNumber_def
      startsNumber_def isDigit_def startsWith_def)

subsection \<open>The whole converter\<close>

lemma csvBody_empty:
  "csvBody fmt [['''']] = ''**Rows:** 1'' @ [nl] @ ''**Columns:** 1'' @ [nl, nl] @ ''| Column |'' @ [nl] @ ''| --- |'' @ [nl]"
  by (simp add: csvBody_def showNat.simps digitChar_def cleanHeaderOf_def tableLine_def detectNumericColumns_def)

text \<open>
  Claim C9.  For every input string the CSV converter returns something other than the
  \<^verbatim>\<open># Empty CSV\<close> document: splitting on newlines gives at least one line and the
  line parser gives at least one cell, so the branch for no lines is never taken.  The
  empty input renders a table whose only header cell is the placeholder \<^verbatim>\<open>Column\<close>.
\<close>

theorem convertCsvToMarkdown_never_empty_csv:
  "convertCsvToMarkdown fmt csvContent \<noteq> ''# Empty CSV'' @ [nl]
   \<and> 1 \<le> length (split nl (trim csvContent))
   \<and> 1 \<le> length (parseCSVLine line)
   \<and> convertCsvToMarkdown fmt [] =
       ''# CSV Data'' @ [nl, nl] @ ''**Rows:** 1'' @ [nl] @ ''**Columns:** 1'' @ [nl, nl]
       @ ''| Column |'' @ [nl] @ ''| --- |'' @ [nl]"
proof (intro conjI)
  have ne: "split nl (trim csvContent) \<noteq> []" by simp
  then show "1 \<le> length (split nl (trim csvContent))"
    by (cases "split nl (trim csvContent)") simp_all
  show "convertCsvToMarkdown fmt csvContent \<noteq> ''# Empty CSV'' @ [nl]"
    using ne by (simp add: convertCsvToMarkdown_def Let_def)
  show "1 \<le> length (parseCSVLine line)"
    using csvLoop_nonempty [of "[]" "[]" False line]
    by (cases "parseCSVLine line") (simp_all add: parseCSVLine_def)
  show "convertCsvToMarkdown fmt [] =
       ''# CSV Data'' @ [nl, nl] @ ''**Rows:** 1'' @ [nl] @ ''**Columns:** 1'' @ [nl, nl]
       @ ''| Column |'' @ [nl] @ ''| --- |'' @ [nl]"
    using csvBody_empty [of fmt]
    by (simp add: convertCsvToMarkdown_def Let_def parseCSVLine_def)
qed

section \<open>Properties of the cleanup normalizer\<close>

text \<open>
  Claim C3.  The claim is that a second pass of the normalizer changes nothing.  The
  normalizer puts a newline in front of every heading marker that follows a newline,
  also when a blank line is already there, so each of the first passes adds one: on
  \<^verbatim>\<open>a\n# b\<close> the first pass gives two newlines before the heading and the second pass
  three.  A run of five newlines between two words does collapse to three and stay so.
\<close>

theorem cleanupMarkdownContent_second_pass:
  "cleanupMarkdownContent ''a\<newline># b'' = ''a\<newline>\<newline># b\<newline>''
   \<and> cleanupMarkdownContent ''a\<newline>\<newline># b\<newline>'' = ''a\<newline>\<newline>\<newline># b\<newline>''
   \<and> cleanupMarkdownContent (cleanupMarkdownContent ''a\<newline># b'') \<noteq> cleanupMarkdownContent ''a\<newline># b''
   \<and> cleanupMarkdownContent ''a\<newline>\<newline>\<newline>\<newline>\<newline>b'' = ''a\<newline>\<newline>\<newline>b\<newline>''
   \<and> cleanupMarkdownContent ''a\<newline>\<newline>\<newline>b\<newline>'' = ''a\<newline>\<newline>\<newline>b\<newline>''"
  by code_simp


section \<open>Properties of the word-processing extractor\<close>

text \<open>
  Claim C8.  The claim is that the heading level lies between 0 and 6.  The level from
  an outline-level attribute is capped at 6, the level from a style name
  \<^verbatim>\<open>Heading<N>\<close> is not: the style \<^verbatim>\<open>Heading7\<close> gives level 7 and a heading of seven
  markers.
\<close>

theorem heading7_gets_seven_markers:
  "getHeadingLevel
     \<lparr>pPr = Some \<lparr>pStyle = Some \<lparr>attr_w_val = Some ''Heading7'', attr_val = None\<rparr>, outlineLvl = None\<rparr>,
      runs = [\<lparr>rPr = None, texts = [''Intro''], nextText = None\<rparr>]\<rparr> = Some 7
   \<and> extractParagraphText
     \<lparr>pPr = Some \<lparr>pStyle = Some \<lparr>attr_w_val = Some ''Heading7'', attr_val = None\<rparr>, outlineLvl = None\<rparr>,
      runs = [\<lparr>rPr = None, texts = [''Intro''], nextText = None\<rparr>]\<rparr> = ''####### Intro''
   \<and> getHeadingLevel
     \<lparr>pPr = Some \<lparr>pStyle = None, outlineLvl = Some \<lparr>attr_w_val = Some ''8'', attr_val = None\<rparr>\<rparr>,
      runs = [\<lparr>rPr = None, texts = [''Intro''], nextText = None\<rparr>]\<rparr> = Some 6
   \<and> extractParagraphText
     \<lparr>pPr = Some \<lparr>pStyle = Some \<lparr>attr_w_val = Some ''Heading2'', attr_val = None\<rparr>, outlineLvl = None\<rparr>,
      runs = [\<lparr>rPr = None, texts = [''Intro''], nextText = None\<rparr>]\<rparr> = ''## Intro''"
  by code_simp


section \<open>Properties of the plain-text inference\<close>

text \<open>
  Claim C7, as stated: level 1 also for a line that starts with Chapter or Part.  The
  line \<^verbatim>\<open>PART ONE\<close>, second line of a text, is a header; it is short and upper-case and
  gets level 2 from the source, and level 1 from the rule as stated.
\<close>

theorem getHeaderLevel_claimed_counterexample:
  "isHeader ''PART ONE'' []
   \<and> getHeaderLevel ''PART ONE'' 1 [''Intro'', ''PART ONE''] = 2
   \<and> claimedHeaderLevel ''PART ONE'' 1 [''Intro'', ''PART ONE''] = 1
   \<and> convertPlainTextToMarkdown ''Intro\<newline>PART ONE'' = ''Intro\<newline>## PART ONE''"
  by code_simp

text \<open>
  Claim C7, amended.  The source tests in this order: the first non-blank line has
  level 1; otherwise a line shorter than 30 characters and fully upper-case has level 2;
  otherwise a line starting with Chapter or Part has level 1; otherwise a line starting
  with Section has level 2; otherwise the level is 3.  So the level is the one the
  specification states except for a later line that is short, upper-case and starts with
  Chapter or Part, which has level 2.  The text of the specification's example renders
  as stated.
\<close>

theorem getHeaderLevel_rules:
  "getHeaderLevel line index lines =
     (if index \<noteq> 0 \<and> \<not> list_all (\<lambda>l. trim l = []) (take index lines)
         \<and> length line < 30 \<and> isUpperCased line \<and> keywordThenSpace [''chapter'', ''part''] line
      then 2 else claimedHeaderLevel line index lines)
   \<and> (index = 0 \<or> list_all (\<lambda>l. trim l = []) (take index lines) \<longrightarrow>
        getHeaderLevel line index lines = 1)
   \<and> (\<not> (index = 0 \<or> list_all (\<lambda>l. trim l = []) (take index lines)) \<longrightarrow>
        getHeaderLevel line index lines =
          (if length line < 30 \<and> isUpperCased line then 2
           else if keywordThenSpace [''chapter'', ''part''] line then 1
           else if keywordThenSpace [''section''] line then 2
           else 3))
   \<and> (trim originalLine \<noteq> [] \<and> isHeader (trim originalLine) nextLine \<longrightarrow>
        processLine lines index originalLine nextLine =
          replicate (getHeaderLevel (trim originalLine) index lines) (CHR ''#'') @ '' ''
          @ trim originalLine)
   \<and> convertPlainTextToMarkdown ''HELLO WORLD\<newline>\<newline>Body text.'' = ''# HELLO WORLD\<newline>\<newline>Body text.''"
proof (intro conjI)
  show "convertPlainTextToMarkdown ''HELLO WORLD\<newline>\<newline>Body text.'' = ''# HELLO WORLD\<newline>\<newline>Body text.''"
    by code_simp
  show "trim originalLine \<noteq> [] \<and> isHeader (trim originalLine) nextLine \<longrightarrow>
        processLine lines index originalLine nextLine =
          replicate (getHeaderLevel (trim originalLine) index lines) (CHR ''#'') @ '' ''
          @ trim originalLine"
    by (simp add: processLine_def Let_def)
qed (auto simp: getHeaderLevel_def claimedHeaderLevel_def)

theorem getHeaderLevel_rules_witness:
  "getHeaderLevel ''Intro'' 0 [''Intro'', ''PART ONE''] = 1
   \<and> getHeaderLevel ''Chapter 2'' 1 [''Intro'', ''Chapter 2''] = 1
   \<and> getHeaderLevel ''NOTES'' 1 [''Intro'', '' NOTES''] = 2
   \<and> getHeaderLevel ''Section 3'' 1 [''Intro'', ''Section 3''] = 2
   \<and> getHeaderLevel ''Summary of it'' 1 [''Intro'', ''Summary of it''] = 3
   \<and> trim '' NOTES'' = ''NOTES''
   \<and> isHeader ''NOTES'' []
   \<and> processLine [''Intro'', '' NOTES''] 1 '' NOTES'' [] = ''## NOTES''"
proof -
  have t: "trim '' NOTES'' = ''NOTES''" and h: "isHeader ''NOTES'' []"
    by code_simp+
  have first: "(0::nat) = 0 \<or> list_all (\<lambda>l. trim l = []) (take 0 [''Intro'', ''PART ONE''])"
    by simp
  have later: "\<not> ((1::nat) = 0 \<or> list_all (\<lambda>l. trim l = []) (take 1 [''Intro'', x]))" for x
    by (simp add: trim_def trimStart_def trimEnd_def isSpace_def)
  have short: "length ''NOTES'' < 30 \<and> isUpperCased ''NOTES''"
    and ch: "\<not> (length ''Chapter 2'' < 30 \<and> isUpperCased ''Chapter 2'')"
      "keywordThenSpace [''chapter'', ''part''] ''Chapter 2''"
    and se: "\<not> (length ''Section 3'' < 30 \<and> isUpperCased ''Section 3'')"
      "\<not> keywordThenSpace [''chapter'', ''part''] ''Section 3''"
      "keywordThenSpace [''section''] ''Section 3''"
    and su: "\<not> (length ''Summary of it'' < 30 \<and> isUpperCased ''Summary of it'')"
      "\<not> keywordThenSpace [''chapter'', ''part''] ''Summary of it''"
      "\<not> keywordThenSpace [''section''] ''Summary of it''"
    by code_simp+
  have l0: "getHeaderLevel ''Intro'' 0 [''Intro'', ''PART ONE''] = 1"
    using getHeaderLevel_rules [of "''Intro''" 0 "[''Intro'', ''PART ONE'']" "[]" "[]"] first
    by blast
  have l1: "getHeaderLevel ''Chapter 2'' 1 [''Intro'', ''Chapter 2''] = 1"
    using getHeaderLevel_rules [of "''Chapter 2''" 1 "[''Intro'', ''Chapter 2'']" "[]" "[]"] later ch
    by simp
  have l2: "getHeaderLevel ''NOTES'' 1 [''Intro'', '' NOTES''] = 2"
    using getHeaderLevel_rules [of "''NOTES''" 1 "[''Intro'', '' NOTES'']" "[]" "[]"] later short
    by simp
  have l3: "getHeaderLevel ''Section 3'' 1 [''Intro'', ''Section 3''] = 2"
    using getHeaderLevel_rules [of "''Section 3''" 1 "[''Intro'', ''Section 3'']" "[]" "[]"] later se
    by simp
  have l4: "getHeaderLevel ''Summary of it'' 1 [''Intro'', ''Summary of it''] = 3"
    using getHeaderLevel_rules [of "''Summary of it''" 1 "[''Intro'', ''Summary of it'']" "[]" "[]"]
      later su
    by simp
  have p: "processLine [''Intro'', '' NOTES''] 1 '' NOTES'' [] = ''## NOTES''"
    using getHeaderLevel_rules [of "''NOTES''" 1 "[''Intro'', '' NOTES'']" "'' NOTES''" "[]"] t h l2
    by (simp add: numeral_2_eq_2)
  from l0 l1 l2 l3 l4 t h p show ?thesis by blast
qed


section \<open>Properties of the format dispatcher\<close>

lemma includesStr_middle: "includesStr (a @ p @ b) p"
proof (induction a)
  case Nil
  have "startsWith (p @ b) p" by (simp add: startsWith_def)
  then show ?case by (cases "p @ b") auto
next
  case (Cons x a)
  then show ?case by simp
qed

lemma convertLoop_map:
  "convertLoop ext i files (progress, markdownFiles) =
     (progress @ [i ..< i + length files],
      markdownFiles @ map (\<lambda>f. case convertFile ext f of Inr converted \<Rightarrow> converted
                                  | Inl e \<Rightarrow> errorFile f e) files)"
proof (induction files arbitrary: i progress markdownFiles)
  case Nil
  then show ?case by simp
next
  case (Cons f files)
  have "[i ..< i + length (f # files)] = i # [Suc i ..< Suc i + length files]"
    by (simp add: upt_rec)
  with Cons [of "i + 1"] show ?case by simp
qed

lemma convertFilesToMarkdown_map:
  "convertFilesToMarkdown ext files =
     ([0 ..< length files] @ [length files],
      map (\<lambda>f. case convertFile ext f of Inr converted \<Rightarrow> converted | Inl e \<Rightarrow> errorFile f e) files)"
  by (simp add: convertFilesToMarkdown_def convertLoop_map)

text \<open>
  Claim C1.  For a list of N files the batch returns N documents, in the order of the
  files, after calling the progress callback with 0, ..., N.  A file whose conversion
  succeeds contributes the converted document; a file whose conversion throws
  contributes the document \<^verbatim>\<open>ERROR_<name>.md\<close>, whose content contains the name of the
  file and the message of the error (\<^verbatim>\<open>Unknown error\<close> when the thrown value is not an
  error object).  The function returns a value for every list of files: a thrown value
  is a result \<open>Inl\<close> of \<open>convertFile\<close>, which the loop turns into a document.
\<close>

theorem convertFilesToMarkdown_one_document_per_file:
  "length (snd (convertFilesToMarkdown ext files)) = length files
   \<and> fst (convertFilesToMarkdown ext files) = [0 ..< length files] @ [length files]
   \<and> (\<forall>i < length files.
         (\<forall>converted. convertFile ext (files ! i) = Inr converted \<longrightarrow>
            snd (convertFilesToMarkdown ext files) ! i = converted)
       \<and> (\<forall>e. convertFile ext (files ! i) = Inl e \<longrightarrow>
            snd (convertFilesToMarkdown ext files) ! i =
              \<lparr>name = ''ERROR_'' @ inputFile.name (files ! i) @ ''.md'',
               content = ''# Conversion Error'' @ [nl, nl]
                         @ ''**File:** '' @ inputFile.name (files ! i) @ [nl]
                         @ ''**Error:** '' @ errorMessage e @ [nl, nl]
                         @ ''*This file could not be converted to markdown.*'',
               originalFile = inputFile.name (files ! i)\<rparr>
            \<and> includesStr (content (snd (convertFilesToMarkdown ext files) ! i))
                  (inputFile.name (files ! i))
            \<and> includesStr (content (snd (convertFilesToMarkdown ext files) ! i))
                  (errorMessage e)))
   \<and> errorMessage (Error message) = message"
proof (intro conjI allI impI)
  show "length (snd (convertFilesToMarkdown ext files)) = length files"
    by (simp add: convertFilesToMarkdown_map)
  show "fst (convertFilesToMarkdown ext files) = [0 ..< length files] @ [length files]"
    by (simp add: convertFilesToMarkdown_map)
  show "errorMessage (Error message) = message"
    by (simp add: errorMessage_def)
next
  fix i converted
  assume "i < length files" "convertFile ext (files ! i) = Inr converted"
  then show "snd (convertFilesToMarkdown ext files) ! i = converted"
    by (simp add: convertFilesToMarkdown_map)
next
  fix i e
  assume a: "i < length files" "convertFile ext (files ! i) = Inl e"
  then have d: "snd (convertFilesToMarkdown ext files) ! i = errorFile (files ! i) e"
    by (simp add: convertFilesToMarkdown_map)
  show "snd (convertFilesToMarkdown ext files) ! i =
              \<lparr>name = ''ERROR_'' @ inputFile.name (files ! i) @ ''.md'',
               content = ''# Conversion Error'' @ [nl, nl]
                         @ ''**File:** '' @ inputFile.name (files ! i) @ [nl]
                         @ ''**Error:** '' @ errorMessage e @ [nl, nl]
                         @ ''*This file could not be converted to markdown.*'',
               originalFile = inputFile.name (files ! i)\<rparr>"
    unfolding d by (simp add: errorFile_def)
  have "includesStr ((''# Conversion Error'' @ [nl, nl] @ ''**File:** '') @ inputFile.name (files ! i)
          @ ([nl] @ ''**Error:** '' @ errorMessage e @ [nl, nl]
             @ ''*This file could not be converted to markdown.*'')) (inputFile.name (files ! i))"
    by (rule includesStr_middle)
  then show "includesStr (content (snd (convertFilesToMarkdown ext files) ! i))
                  (inputFile.name (files ! i))"
    unfolding d by (simp add: errorFile_def)
  have "includesStr ((''# Conversion Error'' @ [nl, nl] @ ''**File:** '' @ inputFile.name (files ! i)
          @ [nl] @ ''**Error:** '') @ errorMessage e @ ([nl, nl]
             @ ''*This file could not be converted to markdown.*'')) (errorMessage e)"
    by (rule includesStr_middle)
  then show "includesStr (content (snd (convertFilesToMarkdown ext files) ! i))
                  (errorMessage e)"
    unfolding d by (simp add: errorFile_def)
qed

lemma convertFile_text_example:
  "convertFile plainExternals (textFile ''notes.txt'' ''Hi there'') =
     Inr \<lparr>name = ''notes.md'', content = ''Hi there'' @ [nl], originalFile = ''notes.txt''\<rparr>"
  by code_simp

lemma convertFile_unreadable_example:
  "convertFile plainExternals (unreadableFile ''data.csv'') = Inl (Error ''Error reading file'')"
  by code_simp

theorem convertFilesToMarkdown_one_document_per_file_witness:
  "snd (convertFilesToMarkdown plainExternals
          [textFile ''notes.txt'' ''Hi there'', unreadableFile ''data.csv'']) ! 0 =
     \<lparr>name = ''notes.md'', content = ''Hi there'' @ [nl], originalFile = ''notes.txt''\<rparr>
   \<and> snd (convertFilesToMarkdown plainExternals
          [textFile ''notes.txt'' ''Hi there'', unreadableFile ''data.csv'']) ! 1 =
     \<lparr>name = ''ERROR_data.csv.md'',
      content = ''# Conversion Error'' @ [nl, nl] @ ''**File:** data.csv'' @ [nl]
                @ ''**Error:** Error reading file'' @ [nl, nl]
                @ ''*This file could not be converted to markdown.*'',
      originalFile = ''data.csv''\<rparr>
   \<and> length (snd (convertFilesToMarkdown plainExternals
          [textFile ''notes.txt'' ''Hi there'', unreadableFile ''data.csv''])) = 2"
  using convertFilesToMarkdown_one_document_per_file
      [of plainExternals "[textFile ''notes.txt'' ''Hi there'', unreadableFile ''data.csv'']"]
    convertFile_text_example convertFile_unreadable_example
  by (simp add: errorMessage_def unreadableFile_def All_less_Suc2 numeral_2_eq_2)

section \<open>Properties of converted documents\<close>

lemma trim_last_not_space: "trim s \<noteq> [] \<Longrightarrow> \<not> isSpace (last (trim s))"
proof -
  assume ne: "trim s \<noteq> []"
  let ?d = "dropWhile isSpace (rev (trimStart s))"
  from ne have d: "?d \<noteq> []" by (simp add: trim_def trimEnd_def)
  then have "\<not> isSpace (hd ?d)" by (rule hd_dropWhile)
  moreover have "last (trim s) = hd ?d"
    using d by (simp add: trim_def trimEnd_def last_rev)
  ultimately show ?thesis by simp
qed

lemma endsWith_nl_last: "endsWith s [nl] \<Longrightarrow> s \<noteq> [] \<and> last s = nl"
  by (cases s rule: rev_cases) (auto simp: endsWith_def startsWith_def)

lemma isSpace_nl: "isSpace nl"
  by (simp add: isSpace_def nl_def)

lemma trimmed_no_final_newline: "trim s \<noteq> [] \<Longrightarrow> \<not> endsWith (trim s) [nl]"
  using trim_last_not_space [of s] endsWith_nl_last [of "trim s"] isSpace_nl by auto

lemma cleanupMarkdownContent_shape:
  "cleanupMarkdownContent s = [] \<or>
   (\<exists>body. cleanupMarkdownContent s = body @ [nl] \<and> body \<noteq> [] \<and> trim body = body)"
proof -
  obtain x where c: "cleanupMarkdownContent s =
      (if trim x \<noteq> [] \<and> \<not> endsWith (trim x) [nl] then trim x @ [nl] else trim x)"
    unfolding cleanupMarkdownContent_def Let_def by blast
  show ?thesis
  proof (cases "trim x = []")
    case True
    with c show ?thesis by simp
  next
    case False
    with c trimmed_no_final_newline [of x] have "cleanupMarkdownContent s = trim x @ [nl]" by simp
    with False show ?thesis using trim_idem [of x] by blast
  qed
qed

lemma no_readable_trimmed:
  "trim ''No readable content found in DOCX file'' = ''No readable content found in DOCX file''"
  by code_simp

lemma readDocxFile_shape:
  assumes "readDocxFile package = Inr markdown"
  shows "markdown \<noteq> [] \<and> trim markdown = markdown"
proof -
  from assms obtain m where
    "markdown = (if trim m \<noteq> [] then trim m else ''No readable content found in DOCX file'')"
    by (auto simp: readDocxFile_def readDocxBody_def Let_def split: docxPackage.splits sum.splits)
  then show ?thesis using trim_idem [of m] no_readable_trimmed by auto
qed

lemma includesStr_split: "includesStr s p \<Longrightarrow> \<exists>a b. s = a @ p @ b"
proof (induction s)
  case Nil
  then show ?case by simp
next
  case (Cons c cs)
  show ?case
  proof (cases "startsWith (c # cs) p")
    case True
    then have "c # cs = [] @ p @ drop (length p) (c # cs)"
      unfolding startsWith_def by (metis append_Nil append_take_drop_id)
    then show ?thesis by blast
  next
    case False
    with Cons obtain a b where "cs = a @ p @ b" by auto
    then have "c # cs = (c # a) @ p @ b" by simp
    then show ?thesis by blast
  qed
qed

lemma includesStr_map: "includesStr s p \<Longrightarrow> includesStr (map g s) (map g p)"
proof -
  assume "includesStr s p"
  then obtain a b where "s = a @ p @ b" using includesStr_split by blast
  then have "map g s = map g a @ map g p @ map g b" by simp
  then show ?thesis using includesStr_middle [of "map g a" "map g p" "map g b"] by simp
qed

lemma wordprocessingml_lower: "toLowerCase ''wordprocessingml'' = ''wordprocessingml''"
  by code_simp

lemma convertContentToMarkdown_cleaned:
  "convertContentToMarkdown ext fileContent f = Inr markdown \<Longrightarrow>
   \<exists>processed. markdown = cleanupMarkdownContent processed"
  unfolding convertContentToMarkdown_def Let_def
  by (auto split: if_splits sum.splits)

text \<open>
  Claim C2, as stated: every successfully converted document, also one from a
  word-processing input, is an output of the normalizer and ends with one newline.  A
  word-processing file is returned as the extractor leaves it: the file with one
  paragraph of style \<^verbatim>\<open>Heading2\<close> and text \<^verbatim>\<open>Intro\<close> gives the content \<^verbatim>\<open>## Intro\<close>
  without a newline at its end, which the normalizer would have added.  An empty text
  file gives the empty content.
\<close>

theorem docx_document_not_normalized:
  "convertFile plainExternals (docxFile ''report.docx'' [styledParagraph ''Heading2'' ''Intro'']) =
     Inr \<lparr>name = ''report.md'', content = ''## Intro'', originalFile = ''report.docx''\<rparr>
   \<and> \<not> endsWith ''## Intro'' [nl]
   \<and> cleanupMarkdownContent ''## Intro'' = ''## Intro'' @ [nl]
   \<and> convertFile plainExternals (textFile ''empty.txt'' []) =
     Inr \<lparr>name = ''empty.md'', content = [], originalFile = ''empty.txt''\<rparr>"
  by code_simp

text \<open>
  Claim C2, amended.  A document converted from an input that is not a word-processing
  file is an output of the normalizer, and its content is empty or is a non-empty text
  without white space at either end followed by exactly one newline.  A document
  converted from a word-processing file is the extractor's text as it is: not empty,
  without white space at either end, so without a newline at its end, and not an output
  of the normalizer.
\<close>

theorem converted_document_content:
  assumes "convertFile ext f = Inr d"
  shows "(\<not> isDocxFile f \<longrightarrow>
            (\<exists>processed. content d = cleanupMarkdownContent processed)
            \<and> (content d = [] \<or> (\<exists>body. content d = body @ [nl] \<and> body \<noteq> [] \<and> trim body = body)))
         \<and> (isDocxFile f \<longrightarrow>
            readFileContent f = Inr (content d) \<and> content d \<noteq> [] \<and> trim (content d) = content d
            \<and> \<not> endsWith (content d) [nl]
            \<and> (\<forall>s. cleanupMarkdownContent s \<noteq> content d))"
proof (intro conjI impI)
  assume nd: "\<not> isDocxFile f"
  with assms obtain fileContent where "convertContentToMarkdown ext fileContent f = Inr (content d)"
    by (auto simp: convertFile_def Let_def split: sum.splits)
  then obtain processed where p: "content d = cleanupMarkdownContent processed"
    using convertContentToMarkdown_cleaned by blast
  then show "\<exists>processed. content d = cleanupMarkdownContent processed" by blast
  from p cleanupMarkdownContent_shape [of processed]
  show "content d = [] \<or> (\<exists>body. content d = body @ [nl] \<and> body \<noteq> [] \<and> trim body = body)"
    by simp
next
  assume dx: "isDocxFile f"
  with assms show r: "readFileContent f = Inr (content d)"
    by (auto simp: convertFile_def Let_def split: sum.splits)
  have lower: "includesStr (type f) ''wordprocessingml'' \<Longrightarrow>
               includesStr (toLowerCase (type f)) ''wordprocessingml''"
    using includesStr_map [of "type f" "''wordprocessingml''" toLowerChar] wordprocessingml_lower
    by (simp add: toLowerCase_def)
  from dx lower have "readFileContent f = readDocxFile (docx f)"
    by (auto simp: readFileContent_def isDocxFile_def Let_def)
  with r readDocxFile_shape [of "docx f" "content d"]
  show ne: "content d \<noteq> []" and tr: "trim (content d) = content d" by simp_all
  from ne tr trimmed_no_final_newline [of "content d"]
  show ends: "\<not> endsWith (content d) [nl]" by simp
  show "\<forall>s. cleanupMarkdownContent s \<noteq> content d"
  proof
    fix s
    have "endsWith (body @ [nl]) [nl]" for body
      by (simp add: endsWith_def startsWith_def)
    with cleanupMarkdownContent_shape [of s] ne ends
    show "cleanupMarkdownContent s \<noteq> content d"
      by metis
  qed
qed

lemma convertFile_docx_example:
  "convertFile plainExternals (docxFile ''report.docx'' [styledParagraph ''Heading2'' ''Intro'']) =
     Inr \<lparr>name = ''report.md'', content = ''## Intro'', originalFile = ''report.docx''\<rparr>"
  by code_simp

lemma isDocxFile_examples:
  "\<not> isDocxFile (textFile ''notes.txt'' ''Hi there'')"
  "isDocxFile (docxFile ''report.docx'' [styledParagraph ''Heading2'' ''Intro''])"
  by code_simp+

theorem converted_document_content_witness:
  "convertFile plainExternals (textFile ''notes.txt'' ''Hi there'') =
     Inr \<lparr>name = ''notes.md'', content = ''Hi there'' @ [nl], originalFile = ''notes.txt''\<rparr>
   \<and> \<not> isDocxFile (textFile ''notes.txt'' ''Hi there'')
   \<and> (\<exists>processed. ''Hi there'' @ [nl] = cleanupMarkdownContent processed)
   \<and> convertFile plainExternals (docxFile ''report.docx'' [styledParagraph ''Heading2'' ''Intro'']) =
     Inr \<lparr>name = ''report.md'', content = ''## Intro'', originalFile = ''report.docx''\<rparr>
   \<and> isDocxFile (docxFile ''report.docx'' [styledParagraph ''Heading2'' ''Intro''])
   \<and> trim ''## Intro'' = ''## Intro''
   \<and> cleanupMarkdownContent ''## Intro'' \<noteq> ''## Intro''"
  using converted_document_content [OF convertFile_text_example]
    converted_document_content [OF convertFile_docx_example]
    convertFile_text_example convertFile_docx_example isDocxFile_examples
  by simp


section \<open>Properties of the hierarchical converter\<close>

lemma remdups_snoc: "remdups (xs @ [k]) = filter (\<lambda>x. x \<noteq> k) (remdups xs) @ [k]"
  by (induction xs) auto

lemma foldl_addKey:
  "foldl addKey allKeys ks = allKeys @ rev (remdups (rev (filter (\<lambda>k. k \<notin> set allKeys) ks)))"
proof (induction ks arbitrary: allKeys)
  case Nil
  then show ?case by simp
next
  case (Cons k ks)
  show ?case
  proof (cases "k \<in> set allKeys")
    case True
    then show ?thesis using Cons [of allKeys] by (simp add: addKey_def)
  next
    case False
    have f: "filter (\<lambda>x. x \<notin> set (allKeys @ [k])) ks
               = filter (\<lambda>x. x \<noteq> k) (filter (\<lambda>x. x \<notin> set allKeys) ks)"
      by (auto intro: filter_cong)
    let ?F = "filter (\<lambda>x. x \<notin> set allKeys) ks"
    have "rev (remdups (rev (filter (\<lambda>x. x \<notin> set allKeys) (k # ks)))) = rev (remdups (rev ?F @ [k]))"
      using False by simp
    also have "\<dots> = k # rev (filter (\<lambda>x. x \<noteq> k) (remdups (rev ?F)))"
      by (simp add: remdups_snoc)
    also have "filter (\<lambda>x. x \<noteq> k) (remdups (rev ?F)) = remdups (rev (filter (\<lambda>x. x \<noteq> k) ?F))"
      by (simp only: remdups_filter rev_filter)
    finally have "rev (remdups (rev (filter (\<lambda>x. x \<notin> set allKeys) (k # ks))))
                    = k # rev (remdups (rev (filter (\<lambda>x. x \<notin> set (allKeys @ [k])) ks)))"
      by (simp only: f)
    moreover have "foldl addKey allKeys (k # ks) = foldl addKey (allKeys @ [k]) ks"
      using False by (simp add: addKey_def)
    ultimately show ?thesis
      using Cons [of "allKeys @ [k]"] by simp
  qed
qed

lemma objectKeys_not_object: "\<not> isObject item \<Longrightarrow> objectKeys item = []"
  by (cases item) simp_all

lemma collectKeys_foldl:
  "foldl (\<lambda>allKeys item. if isObject item then foldl addKey allKeys (objectKeys item) else allKeys)
     allKeys array = foldl addKey allKeys (concat (map objectKeys array))"
proof (induction array arbitrary: allKeys)
  case Nil
  then show ?case by simp
next
  case (Cons item array)
  then show ?case by (cases "isObject item") (simp_all add: objectKeys_not_object)
qed

lemma collectKeys_first_seen:
  "collectKeys array = rev (remdups (rev (concat (map objectKeys array))))"
  by (simp add: collectKeys_def collectKeys_foldl foldl_addKey)

text \<open>
  Claim C6, as stated: an array whose elements are all objects renders as a table with
  one data row per element.  The array of one object without keys has only objects as
  elements and renders as a line of text without any table row; so does the empty array.
\<close>

theorem array_of_empty_objects_no_table:
  "list_all isObject [JObject [] :: nat json]
   \<and> convertArrayToMarkdownTable plainEnv [JObject []] = ''**Array of empty objects**'' @ [nl]
   \<and> convertArrayToMarkdownTable plainEnv [] = ''**Empty array**'' @ [nl]"
  by code_simp

text \<open>
  Claim C6, amended.  For a non-empty array whose elements are all objects, with at
  least one key among them, the converter renders a title line, a header row with the
  union of the keys of all elements in first-seen order (each key once), a separator
  row, and one data row per element with one cell per column.  The cell of a key that
  the element has shows its value; the cell of a key that the element lacks is empty,
  provided the name is not one that every object inherits.  For three objects with the
  keys a, b and a, c and a, b the table has the columns a, b, c and three data rows.
\<close>

theorem convertArrayToMarkdownTable_objects:
  "(array \<noteq> [] \<and> list_all isObject array \<and> collectKeys array \<noteq> [] \<longrightarrow>
      convertArrayToMarkdownTable env array =
        ''**Array Table** ('' @ showNat (length array) @ '' items)'' @ [nl, nl]
        @ tableLine (collectKeys array)
        @ tableLine (map (\<lambda>key. ''---'') (collectKeys array))
        @ concat (map (\<lambda>item. tableLine (map (cell env item) (collectKeys array))) array))
   \<and> collectKeys array = rev (remdups (rev (concat (map objectKeys array))))
   \<and> set (collectKeys array) = (\<Union>item \<in> set array. set (objectKeys item))
   \<and> distinct (collectKeys array)
   \<and> (map_of entries key = Some value \<longrightarrow> cell env (JObject entries) key = valueCell env value)
   \<and> (map_of entries key = None \<and> objectProtoCell env key = None \<longrightarrow>
        cell env (JObject entries) key = [])
   \<and> convertArrayToMarkdownTable plainEnv
        [JObject [(''a'', JNumber 1), (''b'', JNumber 2)],
         JObject [(''a'', JNumber 3), (''c'', JNumber 4)],
         JObject [(''a'', JNumber 5), (''b'', JNumber 6)]] =
        ''**Array Table** (3 items)'' @ [nl, nl]
        @ ''| a | b | c |'' @ [nl]
        @ ''| --- | --- | --- |'' @ [nl]
        @ ''| 1 | 2 |  |'' @ [nl]
        @ ''| 3 |  | 4 |'' @ [nl]
        @ ''| 5 | 6 |  |'' @ [nl]"
proof (intro conjI impI)
  assume a: "array \<noteq> [] \<and> list_all isObject array \<and> collectKeys array \<noteq> []"
  then have "isObject (array ! 0)" by (cases array) simp_all
  with a show "convertArrayToMarkdownTable env array =
        ''**Array Table** ('' @ showNat (length array) @ '' items)'' @ [nl, nl]
        @ tableLine (collectKeys array)
        @ tableLine (map (\<lambda>key. ''---'') (collectKeys array))
        @ concat (map (\<lambda>item. tableLine (map (cell env item) (collectKeys array))) array)"
    by (simp add: convertArrayToMarkdownTable_def Let_def)
next
  show "collectKeys array = rev (remdups (rev (concat (map objectKeys array))))"
    by (rule collectKeys_first_seen)
  show "set (collectKeys array) = (\<Union>item \<in> set array. set (objectKeys item))"
    by (simp add: collectKeys_first_seen)
  show "distinct (collectKeys array)"
    by (simp add: collectKeys_first_seen)
  show "cell env (JObject entries) key = valueCell env value" if "map_of entries key = Some value"
    using that by simp
  show "cell env (JObject entries) key = []"
    if "map_of entries key = None \<and> objectProtoCell env key = None"
    using that by simp
  show "convertArrayToMarkdownTable plainEnv
        [JObject [(''a'', JNumber 1), (''b'', JNumber 2)],
         JObject [(''a'', JNumber 3), (''c'', JNumber 4)],
         JObject [(''a'', JNumber 5), (''b'', JNumber 6)]] =
        ''**Array Table** (3 items)'' @ [nl, nl]
        @ ''| a | b | c |'' @ [nl]
        @ ''| --- | --- | --- |'' @ [nl]
        @ ''| 1 | 2 |  |'' @ [nl]
        @ ''| 3 |  | 4 |'' @ [nl]
        @ ''| 5 | 6 |  |'' @ [nl]"
    by code_simp
qed

lemma collectKeys_example:
  "collectKeys [JObject [(''x'', JNull), (''y'', JBool True)], JObject [(''z'', JString ''q''), (''x'', JNumber (7::nat))]]
     = [''x'', ''y'', ''z'']"
  by code_simp

theorem convertArrayToMarkdownTable_objects_witness:
  "list_all isObject [JObject [(''x'', JNull), (''y'', JBool True)], JObject [(''z'', JString ''q''), (''x'', JNumber (7::nat))]]
   \<and> collectKeys [JObject [(''x'', JNull), (''y'', JBool True)], JObject [(''z'', JString ''q''), (''x'', JNumber (7::nat))]]
        = [''x'', ''y'', ''z'']
   \<and> convertArrayToMarkdownTable plainEnv
        [JObject [(''x'', JNull), (''y'', JBool True)], JObject [(''z'', JString ''q''), (''x'', JNumber 7)]] =
        ''**Array Table** (2 items)'' @ [nl, nl]
        @ ''| x | y | z |'' @ [nl]
        @ ''| --- | --- | --- |'' @ [nl]
        @ ''|  | true |  |'' @ [nl]
        @ ''| 7 |  | q |'' @ [nl]
   \<and> map_of [(''z'', JString ''q''), (''x'', JNumber (7::nat))] ''y'' = None
   \<and> cell plainEnv (JObject [(''z'', JString ''q''), (''x'', JNumber 7)]) ''y'' = []
   \<and> cell plainEnv (JObject [(''z'', JString ''q''), (''x'', JNumber 7)]) ''x'' = ''7''"
  using convertArrayToMarkdownTable_objects
      [of "[JObject [(''x'', JNull), (''y'', JBool True)], JObject [(''z'', JString ''q''), (''x'', JNumber 7)]]"
          plainEnv "[(''z'', JString ''q''), (''x'', JNumber 7)]" "''y''"]
    convertArrayToMarkdownTable_objects
      [of _ plainEnv "[(''z'', JString ''q''), (''x'', JNumber 7)]" "''x''" "JNumber 7"]
    collectKeys_example
  by (simp add: plainEnv_def tableLine_def valueCell_def showNat.simps digitChar_def)

end
